theory Spec2Isabelle
  imports Main "HOL-Library.Word"
begin


section \<open>The antivirus service (src/services/antivirus.service.ts)\<close>

text \<open>
  The service talks to VirusTotal over HTTP. The remote side is not part of the
  repository, so every \<open>fetch\<close> takes its reply from a script of replies held in the
  state (\<open>net\<close>); a script that has run out stands for a network that is down. Each
  dispatched call is appended to \<open>calls\<close>, so that the order and the number of the
  requests can be read off afterwards. \<open>Date.now()\<close> is the field \<open>clock\<close>
  (milliseconds since the epoch, UTC); a \<open>setTimeout\<close> that is awaited advances it.
  The time zone of the process is the field \<open>zone\<close>: the offset of local time from
  UTC, in milliseconds, at a given instant.
  Messages are kept as in the source, with accented letters written without accent.
\<close>

type_synonym buffer = "8 word list"

record engine_result =
  detected :: bool
  result :: "string option"

text \<open>\<open>Object.entries(report.scans)\<close>: the engines in the order of the object's keys.\<close>

type_synonym scans = "(string \<times> engine_result) list"

text \<open>The JSON body of a reply, read through the casts to
  \<open>VirusTotalUploadResponse\<close> and \<open>VirusTotalReportResponse\<close>. The counts
  \<open>positives\<close> and \<open>total\<close> are numbers of engines.\<close>

record vt_json =
  response_code :: int
  verbose_msg :: string
  scan_id :: string
  scan_date :: string
  positives :: nat
  total_engines :: nat
  scans :: scans

datatype fetch_reply =
    Network_error string  \<comment> \<open>\<open>fetch\<close> rejects, with this message\<close>
  | Http_fail string      \<comment> \<open>\<open>!response.ok\<close>; the text is \<open>status statusText\<close>\<close>
  | Http_ok vt_json

datatype vt_call =
    Lookup string          \<comment> \<open>GET /file/report for a content hash (checkHashReport)\<close>
  | Submit string buffer   \<comment> \<open>POST /file/scan (uploadFileForScan): file name, bytes\<close>
  | Report string          \<comment> \<open>GET /file/report for a scan id (getScanReport)\<close>

record engine_detail =
  engine_name :: string
  engine_detected :: bool
  engine_label :: "string option"

record scan_details =
  det_positives :: nat
  det_total :: nat
  det_scanDate :: string
  det_engines :: "engine_detail list"

record VirusTotalScanResult =
  isSafe :: bool
  scanId :: string
  threats :: "string list"
  details :: "scan_details option"
  error :: "string option"

record av_state =
  API_KEY :: string
  lastRequestTime :: int
  requestCount :: nat
  dailyRequestCount :: nat
  lastResetDate :: int
  clock :: int
  zone :: "int \<Rightarrow> int"
  net :: "fetch_reply list"
  calls :: "vt_call list"

definition MAX_FILE_SIZE :: nat where
  "MAX_FILE_SIZE = 32 * 1024 * 1024"

definition RATE_LIMIT_DELAY :: int where
  "RATE_LIMIT_DELAY = 15000"

text \<open>\<open>new Date().toDateString()\<close>: the local calendar day of an instant, as the
  number of the day; two instants have the same string exactly when they fall on the
  same local day.\<close>

definition toDateString :: "(int \<Rightarrow> int) \<Rightarrow> int \<Rightarrow> int" where
  "toDateString tz ms = (ms + tz ms) div 86400000"

definition sleep :: "int \<Rightarrow> av_state \<Rightarrow> av_state" where
  "sleep ms s = s\<lparr>clock := clock s + ms\<rparr>"

definition fetch :: "vt_call \<Rightarrow> av_state \<Rightarrow> fetch_reply \<times> av_state" where
  "fetch c s =
     (case net s of
        [] \<Rightarrow> (Network_error ''network unreachable'', s\<lparr>calls := calls s @ [c]\<rparr>)
      | r # rs \<Rightarrow> (r, s\<lparr>net := rs, calls := calls s @ [c]\<rparr>))"

definition rateLimitCheck :: "av_state \<Rightarrow> (string + unit) \<times> av_state" where
  "rateLimitCheck s =
     (let currentDate = toDateString (zone s) (clock s);
          s1 = (if lastResetDate s \<noteq> currentDate
                then s\<lparr>dailyRequestCount := 0, lastResetDate := currentDate\<rparr> else s)
      in if dailyRequestCount s1 \<ge> 500
         then (Inl ''Limite diario de escaneo alcanzado. Intenta manana.'', s1)
         else
           let timeSinceLastRequest = clock s1 - lastRequestTime s1;
               s2 = (if timeSinceLastRequest < RATE_LIMIT_DELAY
                     then sleep (RATE_LIMIT_DELAY - timeSinceLastRequest) s1 else s1)
           in (Inr (), s2\<lparr>lastRequestTime := clock s2,
                            requestCount := requestCount s2 + 1,
                            dailyRequestCount := dailyRequestCount s2 + 1\<rparr>))"

text \<open>The body of the \<open>try\<close> of \<open>uploadFileForScan\<close>; \<open>Inl\<close> is a thrown message.\<close>

definition uploadFileForScan_try ::
  "av_state \<Rightarrow> buffer \<Rightarrow> string \<Rightarrow> (string + string) \<times> av_state" where
  "uploadFileForScan_try s buf filename =
     (case rateLimitCheck s of
        (Inl e, s1) \<Rightarrow> (Inl e, s1)
      | (Inr _, s1) \<Rightarrow>
          if length buf > MAX_FILE_SIZE
          then (Inl ''Archivo demasiado grande para escaneo. Maximo: 32MB'', s1)
          else
            (case fetch (Submit filename buf) s1 of
               (Network_error e, s2) \<Rightarrow> (Inl e, s2)
             | (Http_fail st, s2) \<Rightarrow> (Inl (''VirusTotal upload failed: '' @ st), s2)
             | (Http_ok j, s2) \<Rightarrow>
                 if response_code j \<noteq> 1
                 then (Inl (''VirusTotal upload error: '' @ verbose_msg j), s2)
                 else (Inr (scan_id j), s2)))"

definition uploadFileForScan ::
  "av_state \<Rightarrow> buffer \<Rightarrow> string \<Rightarrow> (string + string) \<times> av_state" where
  "uploadFileForScan s buf filename =
     (case uploadFileForScan_try s buf filename of
        (Inl e, s1) \<Rightarrow> (Inl (''Error al subir archivo para escaneo: '' @ e), s1)
      | (Inr sid, s1) \<Rightarrow> (Inr sid, s1))"

text \<open>One pass through the \<open>try\<close> of the polling loop, up to the decision on the
  reply: the report, "still in progress" (response code -2), or a thrown message.\<close>

datatype poll_outcome = Completed vt_json | In_progress | Threw string

definition report_attempt :: "string \<Rightarrow> av_state \<Rightarrow> poll_outcome \<times> av_state" where
  "report_attempt resource s =
     (case rateLimitCheck s of
        (Inl e, s1) \<Rightarrow> (Threw e, s1)
      | (Inr _, s1) \<Rightarrow>
          (case fetch (Report resource) s1 of
             (Network_error e, s2) \<Rightarrow> (Threw e, s2)
           | (Http_fail st, s2) \<Rightarrow> (Threw (''VirusTotal report request failed: '' @ st), s2)
           | (Http_ok j, s2) \<Rightarrow>
               if response_code j = 1 then (Completed j, s2)
               else if response_code j = - 2 then (In_progress, s2)
               else (Threw (''VirusTotal report error: '' @ verbose_msg j), s2)))"

text \<open>The \<open>catch\<close> of the loop body: give up on the last attempt, otherwise count the
  attempt, wait five seconds and go round again (\<open>None\<close>).\<close>

definition report_catch ::
  "nat \<Rightarrow> nat \<Rightarrow> string \<Rightarrow> av_state \<Rightarrow> (string \<times> av_state) option" where
  "report_catch maxRetries retries msg s =
     (if retries \<ge> maxRetries - 1
      then Some (''Error al obtener reporte de escaneo: '' @ msg, s)
      else None)"

function getScanReport_loop ::
  "nat \<Rightarrow> nat \<Rightarrow> string \<Rightarrow> av_state \<Rightarrow> (string + vt_json) \<times> av_state" where
  "getScanReport_loop maxRetries retries resource s =
     (if \<not> retries < maxRetries
      then (Inl ''Maximo numero de intentos alcanzado'', s)
      else
        (case report_attempt resource s of
           (Completed j, s1) \<Rightarrow> (Inr j, s1)
         | (In_progress, s1) \<Rightarrow>
             if retries + 1 \<ge> maxRetries
             then (Inl (''Error al obtener reporte de escaneo: '' @
                        ''Timeout esperando resultados del escaneo''), s1)
             else getScanReport_loop maxRetries (retries + 1) resource
                    (sleep (min (10000 + int (retries + 1) * 2000) 30000) s1)
         | (Threw msg, s1) \<Rightarrow>
             (case report_catch maxRetries retries msg s1 of
                Some (e, s2) \<Rightarrow> (Inl e, s2)
              | None \<Rightarrow> getScanReport_loop maxRetries (retries + 1) resource (sleep 5000 s1))))"
  by pat_completeness auto
termination
  by (relation "measure (\<lambda>(m, r, _, _). m - r)") auto

declare getScanReport_loop.simps [simp del]

definition getScanReport :: "string \<Rightarrow> av_state \<Rightarrow> (string + vt_json) \<times> av_state" where
  "getScanReport resource s = getScanReport_loop 10 0 resource s"

definition checkHashReport :: "av_state \<Rightarrow> string \<Rightarrow> vt_json option \<times> av_state" where
  "checkHashReport s hash =
     (case rateLimitCheck s of
        (Inl e, s1) \<Rightarrow> (None, s1)
      | (Inr _, s1) \<Rightarrow>
          (case fetch (Lookup hash) s1 of
             (Network_error e, s2) \<Rightarrow> (None, s2)
           | (Http_fail st, s2) \<Rightarrow> (None, s2)
           | (Http_ok j, s2) \<Rightarrow>
               if response_code j = 1 then (Some j, s2) else (None, s2)))"

text \<open>A JavaScript string is truthy when it is present and not empty.\<close>

definition truthy :: "string option \<Rightarrow> bool" where
  "truthy x = (case x of None \<Rightarrow> False | Some t \<Rightarrow> t \<noteq> [])"

fun processEngineResults :: "scans \<Rightarrow> string list" where
  "processEngineResults [] = []"
| "processEngineResults ((engineName, r) # rest) =
     (case result r of
        None \<Rightarrow> processEngineResults rest
      | Some label \<Rightarrow>
          if detected r \<and> truthy (Some label)
          then (engineName @ '': '' @ label) # processEngineResults rest
          else processEngineResults rest)"

definition verdict_of_report :: "vt_json \<Rightarrow> VirusTotalScanResult" where
  "verdict_of_report report =
     \<lparr>isSafe = (positives report = 0),
      scanId = scan_id report,
      threats = processEngineResults (scans report),
      details = Some \<lparr>det_positives = positives report,
                      det_total = total_engines report,
                      det_scanDate = scan_date report,
                      det_engines = map (\<lambda>(name, r). \<lparr>engine_name = name,
                          engine_detected = detected r, engine_label = result r\<rparr>)
                        (scans report)\<rparr>,
      error = None\<rparr>"

definition no_api_key_result :: VirusTotalScanResult where
  "no_api_key_result =
     \<lparr>isSafe = True, scanId = ''no-api-key'', threats = [], details = None,
      error = Some ''API key not configured''\<rparr>"

definition daily_limit_result :: VirusTotalScanResult where
  "daily_limit_result =
     \<lparr>isSafe = True, scanId = ''daily-limit-reached'', threats = [], details = None,
      error = Some ''Limite diario alcanzado (500/500). Tu proyecto sera revisado pronto por un administrador.''\<rparr>"

definition error_result :: "string \<Rightarrow> VirusTotalScanResult" where
  "error_result msg =
     \<lparr>isSafe = True, scanId = ''error'', threats = [], details = None, error = Some msg\<rparr>"

text \<open>The body of the \<open>try\<close> of \<open>scanWithVirusTotal\<close>. The SHA-256 of the buffer is
  computed by the platform's crypto library; it is the parameter \<open>sha256\<close>.\<close>

definition scanWithVirusTotal_try ::
  "(buffer \<Rightarrow> string) \<Rightarrow> av_state \<Rightarrow> buffer \<Rightarrow> string
     \<Rightarrow> (string + VirusTotalScanResult) \<times> av_state" where
  "scanWithVirusTotal_try sha256 s buf filename =
     (if API_KEY s = [] then (Inr no_api_key_result, s)
      else if dailyRequestCount s \<ge> 500 then (Inr daily_limit_result, s)
      else
        let fileHash = sha256 buf in
        (case checkHashReport s fileHash of
           (Some existingReport, s1) \<Rightarrow> (Inr (verdict_of_report existingReport), s1)
         | (None, s1) \<Rightarrow>
             (case uploadFileForScan s1 buf filename of
                (Inl e, s2) \<Rightarrow> (Inl e, s2)
              | (Inr sid, s2) \<Rightarrow>
                  (case getScanReport sid s2 of
                     (Inl e, s3) \<Rightarrow> (Inl e, s3)
                   | (Inr report, s3) \<Rightarrow> (Inr (verdict_of_report report), s3)))))"

definition scanWithVirusTotal ::
  "(buffer \<Rightarrow> string) \<Rightarrow> av_state \<Rightarrow> buffer \<Rightarrow> string \<Rightarrow> VirusTotalScanResult \<times> av_state" where
  "scanWithVirusTotal sha256 s buf filename =
     (case scanWithVirusTotal_try sha256 s buf filename of
        (Inl e, s1) \<Rightarrow> (error_result e, s1)
      | (Inr v, s1) \<Rightarrow> (v, s1))"

subsection \<open>Observations on a run of the service\<close>

fun is_submit :: "vt_call \<Rightarrow> bool" where
  "is_submit (Submit f b) = True"
| "is_submit _ = False"

definition submit_count :: "vt_call list \<Rightarrow> nat" where
  "submit_count cs = length (filter is_submit cs)"

text \<open>What one scan request may add to the log of calls: nothing, the hash lookup
  alone, or the hash lookup followed by one upload and the polls of its scan id.\<close>

definition lookup_first :: "string \<Rightarrow> string \<Rightarrow> buffer \<Rightarrow> vt_call list \<Rightarrow> bool" where
  "lookup_first h fn buf new \<longleftrightarrow>
     new = [] \<or> new = [Lookup h] \<or>
     (\<exists>sid k. new = Lookup h # Submit fn buf # replicate k (Report sid))"

text \<open>The counters only move in \<open>rateLimitCheck\<close>, which is reached only with a key
  configured: a service without a key keeps its daily counter at zero.\<close>

definition service_inv :: "av_state \<Rightarrow> bool" where
  "service_inv s \<longleftrightarrow> (API_KEY s = [] \<longrightarrow> dailyRequestCount s = 0)"

text \<open>What the polling loop does to the state: the key is kept, replies are only
  consumed, the log grows by polls of the resource, and a report that is returned was
  a reply with response code 1.\<close>

definition loop_frame :: "string \<Rightarrow> av_state \<Rightarrow> (string + vt_json) \<Rightarrow> av_state \<Rightarrow> bool" where
  "loop_frame res s out s' \<longleftrightarrow>
     API_KEY s' = API_KEY s \<and> set (net s') \<subseteq> set (net s) \<and>
     (\<exists>k. calls s' = calls s @ replicate k (Report res)) \<and>
     (\<forall>j. out = Inr j \<longrightarrow> Http_ok j \<in> set (net s) \<and> response_code j = 1)"


subsection \<open>Concrete inputs\<close>

text \<open>A stand-in for the hash function, a freshly started service (at UTC) with a
  given key, daily count and script of replies, and some JSON replies.\<close>

definition demo_hash :: "buffer \<Rightarrow> string" where
  "demo_hash buf = replicate (length buf) CHR ''f''"

definition service :: "string \<Rightarrow> nat \<Rightarrow> fetch_reply list \<Rightarrow> av_state" where
  "service key daily replies =
     \<lparr>API_KEY = key, lastRequestTime = 0, requestCount = daily, dailyRequestCount = daily,
      lastResetDate = 0, clock = 0, zone = (\<lambda>ms. 0), net = replies, calls = []\<rparr>"

definition reply_json :: "int \<Rightarrow> nat \<Rightarrow> scans \<Rightarrow> vt_json" where
  "reply_json code pos sc =
     \<lparr>response_code = code, verbose_msg = ''msg'', scan_id = ''scan-1'',
      scan_date = ''2025-01-01'', positives = pos, total_engines = 2, scans = sc\<rparr>"

definition engines_labelled :: scans where
  "engines_labelled =
     [(''EngineA'', \<lparr>detected = True, result = Some ''Trojan.Generic''\<rparr>),
      (''EngineB'', \<lparr>detected = False, result = None\<rparr>)]"

definition engines_unlabelled :: scans where
  "engines_unlabelled =
     [(''EngineA'', \<lparr>detected = True, result = None\<rparr>),
      (''EngineB'', \<lparr>detected = False, result = None\<rparr>)]"


section \<open>The upload service (src/services/upload.service.ts)\<close>

text \<open>
  Cloudinary is a remote service. It keeps an asset under its public id and its
  resource type (the same public id may be held as an image and as a raw file), so its
  state is the set \<open>assets\<close> of these pairs. An upload that succeeds stores the asset
  under the public id it returns and the resource type of the request. A \<open>destroy\<close>
  names a public id and a resource type: when the service serves it, it removes that
  asset and answers \<open>ok\<close>, or answers \<open>not found\<close> when it holds no asset of that id
  and type; the service may also fail on the request (\<open>destroy_fault\<close>), and then
  nothing is removed. Whether the other requests succeed, and with what, is read
  from the remaining oracle fields of the record, so that every theorem holds for
  every behaviour of the service, failures included. Each call of
  \<open>moveCloudinaryFiles\<close>, \<open>deleteFromCloudinary\<close> and \<open>uploadToCloudinary\<close> is
  appended to \<open>cloud_log\<close> with its outcome.
\<close>

datatype resource_type = Image | Video | Raw

datatype destroy_reply =
    Destroy_ok                \<comment> \<open>\<open>{ result: 'ok' }\<close>\<close>
  | Destroy_not_found         \<comment> \<open>\<open>{ result: 'not found' }\<close>\<close>
  | Destroy_other string      \<comment> \<open>any other \<open>result\<close>\<close>
  | Destroy_throws string     \<comment> \<open>the call rejects\<close>

datatype fault =
    Other_result string       \<comment> \<open>the service answers with a \<open>result\<close> other than \<open>ok\<close> and \<open>not found\<close>\<close>
  | Rejects string            \<comment> \<open>the call rejects (network, credentials, rate limit)\<close>

datatype cloud_event =
    Ev_move string string "string option"   \<comment> \<open>source id, target folder, new id if it succeeded\<close>
  | Ev_delete string bool                   \<comment> \<open>public id, whether the call returned normally\<close>
  | Ev_upload string string "string option" \<comment> \<open>file name, folder, new id if it succeeded\<close>

record UploadResult =
  fileId :: string
  secureUrl :: string

record cloud =
  assets :: "(string \<times> resource_type) set"
  resource_reply :: "string \<Rightarrow> resource_type option \<Rightarrow> string + string option"
    \<comment> \<open>\<open>cloudinary.api.resource\<close>: rejects with a message, or a resource with its \<open>secure_url\<close>\<close>
  upload_reply :: "string \<Rightarrow> string \<Rightarrow> string \<Rightarrow> resource_type \<Rightarrow> string + string"
    \<comment> \<open>\<open>cloudinary.uploader.upload\<close> of a URL under a public id and folder: the new public id\<close>
  stream_reply :: "string \<Rightarrow> string \<Rightarrow> resource_type \<Rightarrow> string + UploadResult option"
    \<comment> \<open>the callback of \<open>cloudinary.uploader.upload_stream\<close> for a public id and folder: an
        error with its message, or a result, which may be missing\<close>
  destroy_fault :: "string \<Rightarrow> resource_type \<Rightarrow> fault option"
    \<comment> \<open>\<open>cloudinary.uploader.destroy\<close>: \<open>None\<close> when the service serves the request\<close>
  cloud_log :: "cloud_event list"

text \<open>\<open>s.includes(sub)\<close> on JavaScript strings.\<close>

fun str_includes :: "string \<Rightarrow> string \<Rightarrow> bool" where
  "str_includes [] sub = (sub = [])"
| "str_includes (c # cs) sub = (take (length sub) (c # cs) = sub \<or> str_includes cs sub)"

text \<open>\<open>s.split('/').pop()\<close> and \<open>s.split('.')[0]\<close>.\<close>

definition last_segment :: "string \<Rightarrow> string" where
  "last_segment s = rev (takeWhile (\<lambda>c. c \<noteq> CHR ''/'') (rev s))"

definition before_dot :: "string \<Rightarrow> string" where
  "before_dot s = takeWhile (\<lambda>c. c \<noteq> CHR ''.'') s"

definition log_event :: "cloud_event \<Rightarrow> cloud \<Rightarrow> cloud" where
  "log_event e c = c\<lparr>cloud_log := cloud_log c @ [e]\<rparr>"

definition destroy :: "string \<Rightarrow> resource_type \<Rightarrow> cloud \<Rightarrow> destroy_reply \<times> cloud" where
  "destroy assetId rt c =
     (case destroy_fault c assetId rt of
        Some (Rejects msg) \<Rightarrow> (Destroy_throws msg, c)
      | Some (Other_result r) \<Rightarrow> (Destroy_other r, c)
      | None \<Rightarrow>
          if (assetId, rt) \<in> assets c
          then (Destroy_ok, c\<lparr>assets := assets c - {(assetId, rt)}\<rparr>)
          else (Destroy_not_found, c))"

text \<open>The body of the \<open>try\<close> of \<open>deleteFromCloudinary\<close>. The resource type is
  guessed from the public id; the answers \<open>ok\<close> and \<open>not found\<close> both count as
  done.\<close>

definition delete_resource_type :: "string \<Rightarrow> resource_type" where
  "delete_resource_type publicId =
     (if str_includes publicId ''video_'' \<or> str_includes publicId ''app_'' then Raw
      else if str_includes publicId ''movie_'' \<or> str_includes publicId ''clip_'' then Video
      else Image)"

definition deleteFromCloudinary_try :: "string \<Rightarrow> cloud \<Rightarrow> (string + unit) \<times> cloud" where
  "deleteFromCloudinary_try publicId c =
     (let resourceType = delete_resource_type publicId
      in case destroy publicId resourceType c of
           (Destroy_throws msg, c1) \<Rightarrow> (Inl msg, c1)
         | (Destroy_other r, c1) \<Rightarrow> (Inl (''Delete failed: '' @ r), c1)
         | (_, c1) \<Rightarrow> (Inr (), c1))"

definition deleteFromCloudinary :: "string \<Rightarrow> cloud \<Rightarrow> (string + unit) \<times> cloud" where
  "deleteFromCloudinary publicId c =
     (case deleteFromCloudinary_try publicId c of
        (Inl msg, c1) \<Rightarrow>
          (Inl (''Error al eliminar archivo de Cloudinary: '' @ msg),
           log_event (Ev_delete publicId False) c1)
      | (Inr u, c1) \<Rightarrow> (Inr (), log_event (Ev_delete publicId True) c1))"

text \<open>\<open>await Promise.allSettled(ids.map(id => deleteFromCloudinary(id)))\<close>: every
  deletion is attempted, rejections are dropped.\<close>

fun delete_all_settled :: "string list \<Rightarrow> cloud \<Rightarrow> cloud" where
  "delete_all_settled [] c = c"
| "delete_all_settled (publicId # ids) c =
     delete_all_settled ids (snd (deleteFromCloudinary publicId c))"

text \<open>The body of the \<open>try\<close> of \<open>moveCloudinaryFiles\<close>: the resource type is taken
  from the folder in the public id; then read the resource, upload its URL into the
  new folder, destroy the original (the reply of this \<open>destroy\<close> is not looked at,
  only a rejection counts).\<close>

definition move_resource_type :: "string \<Rightarrow> resource_type" where
  "move_resource_type publicId =
     (let isImage = (str_includes publicId ''/icons/'' \<or> str_includes publicId ''/images/'')
      in if isImage then Image else Raw)"

definition moveCloudinaryFiles_try ::
  "string \<Rightarrow> string \<Rightarrow> cloud \<Rightarrow> (string + string) \<times> cloud" where
  "moveCloudinaryFiles_try publicId newFolder c =
     (let resourceType = move_resource_type publicId;
          fileNameWithExt = last_segment publicId
      in case resource_reply c publicId (Some resourceType) of
           Inl msg \<Rightarrow> (Inl msg, c)
         | Inr None \<Rightarrow> (Inl (''Could not get secure URL for '' @ publicId), c)
         | Inr (Some originalUrl) \<Rightarrow>
             (case upload_reply c originalUrl (before_dot fileNameWithExt) newFolder resourceType of
                Inl msg \<Rightarrow> (Inl msg, c)
              | Inr newId \<Rightarrow>
                  (case destroy publicId resourceType
                          (c\<lparr>assets := insert (newId, resourceType) (assets c)\<rparr>) of
                     (Destroy_throws msg, c2) \<Rightarrow> (Inl msg, c2)
                   | (_, c2) \<Rightarrow> (Inr newId, c2))))"

definition moveCloudinaryFiles ::
  "string \<Rightarrow> string \<Rightarrow> cloud \<Rightarrow> (string + string) \<times> cloud" where
  "moveCloudinaryFiles publicId newFolder c =
     (case moveCloudinaryFiles_try publicId newFolder c of
        (Inl msg, c1) \<Rightarrow>
          (Inl (''Failed to move file: '' @ msg), log_event (Ev_move publicId newFolder None) c1)
      | (Inr newId, c1) \<Rightarrow>
          (Inr newId, log_event (Ev_move publicId newFolder (Some newId)) c1))"

text \<open>\<open>getFileInfo\<close> never throws: a rejection of \<open>api.resource\<close> gives \<open>null\<close>. Of
  the fields of the result only \<open>secureUrl\<close> is read by the callers; it may be missing.\<close>

definition getFileInfo :: "string \<Rightarrow> cloud \<Rightarrow> string option option" where
  "getFileInfo publicId c =
     (case resource_reply c publicId None of
        Inl msg \<Rightarrow> None
      | Inr secure_url \<Rightarrow> Some secure_url)"

definition startsWith :: "string \<Rightarrow> string \<Rightarrow> bool" where
  "startsWith s pre = (take (length pre) s = pre)"

definition uploadToCloudinary ::
  "string \<Rightarrow> string \<Rightarrow> string \<Rightarrow> cloud \<Rightarrow> (string + UploadResult) \<times> cloud" where
  "uploadToCloudinary fileName mimeType folder c =
     (let resourceType = (if startsWith mimeType ''image/'' then Image else Raw)
      in case stream_reply c (before_dot fileName) folder resourceType of
           Inl msg \<Rightarrow>
             (Inl (''Error al subir a Cloudinary: '' @ msg),
              log_event (Ev_upload fileName folder None) c)
         | Inr None \<Rightarrow>
             (Inl ''Upload failed: No result returned'',
              log_event (Ev_upload fileName folder None) c)
         | Inr (Some r) \<Rightarrow>
             (Inr r, log_event (Ev_upload fileName folder (Some (fileId r)))
                       (c\<lparr>assets := insert (fileId r, resourceType) (assets c)\<rparr>)))"

section \<open>The project model (src/models/Project.ts)\<close>

text \<open>
  Of a project document the fields that the modelled operations read or write are
  kept. Array paths are always arrays in Mongoose, so \<open>imagePublicIds\<close> and
  \<open>imageUrls\<close> are lists; \<open>owner\<close> is \<open>companyId.ownerId\<close> of the populated company,
  if there is one. Dates are the clock readings at which they were taken.

  The schema declares \<open>files\<close>, its entries \<open>app\<close>, \<open>code\<close> and \<open>docPdf\<close>, \<open>draft\<close>,
  \<open>draft.files\<close> and its three entries as nested paths, not as subdocuments. Reading a
  nested path of a document never gives \<open>undefined\<close>: it gives an object whose leaves
  may be unset. In the records below \<open>None\<close> at such a position stands for the nested
  object none of whose leaves is set, and a test such as \<open>!project.draft\<close> or
  \<open>draft.files.code !== undefined\<close> is decided accordingly. An array path that was
  never set reads as the empty array.

  The text that a moderator types as feedback is kept as the sequence of its UTF-16
  code units, as a JavaScript string has it; the other strings are identifiers, names
  and messages, of which only equality, emptiness and ASCII substrings are looked at.
\<close>

type_synonym utf16 = "16 word list"

datatype project_status = Pending | Needs_author_review | Published | Rejected

datatype draft_status = Draft_none | Draft_pending | Draft_rejected

record project_file =
  file_type :: "string option"
  url :: "string option"
  publicId :: "string option"
  fileName :: "string option"
  virusScan :: "VirusTotalScanResult option"

record project_files =
  app :: "project_file option"
  code :: "project_file option"
  docPdf :: "project_file option"

record draft_changes =
  d_title :: "string option"
  d_shortDesc :: "string option"
  d_longDesc :: "string option"
  d_iconPublicId :: "string option"
  d_iconUrl :: "string option"
  d_imagePublicIds :: "string list option"
  d_imageUrls :: "string list option"
  d_files :: "project_files option"

record project =
  title :: string
  shortDesc :: string
  longDesc :: string
  iconPublicId :: "string option"
  iconUrl :: "string option"
  imagePublicIds :: "string list"
  imageUrls :: "string list"
  files :: "project_files option"
  owner :: "string option"
  status :: project_status
  publishedAt :: "nat option"
  draftStatus :: draft_status
  draft :: "draft_changes option"
  draftSubmittedAt :: "nat option"
  draftFeedback :: "utf16 option"
  draftRejectedAt :: "nat option"

text \<open>\<open>files?.code?.publicId\<close> and \<open>files?.docPdf?.publicId\<close>.\<close>

definition code_publicId :: "project_files option \<Rightarrow> string option" where
  "code_publicId fs =
     (case fs of None \<Rightarrow> None
      | Some f \<Rightarrow> (case code f of None \<Rightarrow> None | Some c \<Rightarrow> publicId c))"

definition doc_publicId :: "project_files option \<Rightarrow> string option" where
  "doc_publicId fs =
     (case fs of None \<Rightarrow> None
      | Some f \<Rightarrow> (case docPdf f of None \<Rightarrow> None | Some c \<Rightarrow> publicId c))"

definition no_files :: project_files where
  "no_files = \<lparr>app = None, code = None, docPdf = None\<rparr>"

text \<open>\<open>project.draft\<close> and \<open>x.files\<close> as they read: the nested object, with no leaf
  set when nothing is stored.\<close>

definition no_draft :: draft_changes where
  "no_draft =
     \<lparr>d_title = None, d_shortDesc = None, d_longDesc = None, d_iconPublicId = None,
      d_iconUrl = None, d_imagePublicIds = None, d_imageUrls = None, d_files = None\<rparr>"

definition the_draft :: "project \<Rightarrow> draft_changes" where
  "the_draft p = (case draft p of None \<Rightarrow> no_draft | Some d \<Rightarrow> d)"

definition nested_files :: "project_files option \<Rightarrow> project_files" where
  "nested_files fs = (case fs of None \<Rightarrow> no_files | Some f \<Rightarrow> f)"

definition no_file :: project_file where
  "no_file =
     \<lparr>file_type = None, url = None, publicId = None, fileName = None, virusScan = None\<rparr>"

definition nested_file :: "project_file option \<Rightarrow> project_file" where
  "nested_file x = (case x of None \<Rightarrow> no_file | Some f \<Rightarrow> f)"

text \<open>\<open>applyDraft\<close>. The guard \<open>if (!this.draft) return\<close> never holds, and
  \<open>if (this.draft.files)\<close> always does. The texts, the icon and the images are leaves
  and arrays: they are copied when they are set (the images when the array is not
  empty). The three entries of \<open>draft.files\<close> are nested objects, so each test
  \<open>!== undefined\<close> holds and each entry of \<open>files\<close> is overwritten with the draft's,
  also when the draft does not name it.\<close>

definition applyDraft :: "project \<Rightarrow> project" where
  "applyDraft p =
     (let d = the_draft p;
          p1 = (case d_title d of Some t \<Rightarrow> p\<lparr>title := t\<rparr> | None \<Rightarrow> p);
          p2 = (case d_shortDesc d of Some t \<Rightarrow> p1\<lparr>shortDesc := t\<rparr> | None \<Rightarrow> p1);
          p3 = (case d_longDesc d of Some t \<Rightarrow> p2\<lparr>longDesc := t\<rparr> | None \<Rightarrow> p2);
          p4 = (case d_iconPublicId d of Some i \<Rightarrow> p3\<lparr>iconPublicId := Some i\<rparr> | None \<Rightarrow> p3);
          p5 = (case d_iconUrl d of Some u \<Rightarrow> p4\<lparr>iconUrl := Some u\<rparr> | None \<Rightarrow> p4);
          p6 = (case d_imagePublicIds d of
                  Some ids \<Rightarrow> if length ids > 0 then p5\<lparr>imagePublicIds := ids\<rparr> else p5
                | None \<Rightarrow> p5);
          p7 = (case d_imageUrls d of
                  Some us \<Rightarrow> if length us > 0 then p6\<lparr>imageUrls := us\<rparr> else p6
                | None \<Rightarrow> p6);
          df = nested_files (d_files d);
          f0 = nested_files (files p7);
          f1 = f0\<lparr>app := app df\<rparr>;
          f2 = f1\<lparr>code := code df\<rparr>;
          f3 = f2\<lparr>docPdf := docPdf df\<rparr>
      in p7\<lparr>files := Some f3\<rparr>)"

definition clearDraft :: "project \<Rightarrow> project" where
  "clearDraft p =
     p\<lparr>draft := None, draftStatus := Draft_none, draftSubmittedAt := None,
       draftFeedback := None, draftRejectedAt := None\<rparr>"

section \<open>The world of a request handler\<close>

text \<open>
  A handler runs against the collection of projects, Cloudinary and the antivirus
  service. \<open>project.save()\<close> may reject a document (validation, a duplicate key); what
  it answers is the oracle \<open>save_reply\<close> (\<open>None\<close>: saved). The notification service
  may throw as well (\<open>notify_reply\<close>). \<open>mongoose.Types.ObjectId.isValid\<close> is a library
  predicate, \<open>isValidObjectId\<close>. Reads and deletions of the collections are served.
  \<open>fresh_id\<close> is the \<open>_id\<close> that \<open>new Project\<close> gives to the next document.
\<close>

record company =
  ownerId :: string
  members :: "(string \<times> string list) list"   \<comment> \<open>user id and roles of each member\<close>

record world =
  projects :: "string \<rightharpoonup> project"
  companies :: "string \<rightharpoonup> company"
  fresh_id :: string
  storage :: cloud
  av :: av_state
  now :: nat
  isValidObjectId :: "string \<Rightarrow> bool"
  save_reply :: "string \<Rightarrow> project \<Rightarrow> string option"
  notify_reply :: "string option"

datatype response =
    Res_error nat string                       \<comment> \<open>\<open>res.status(n).json({ error })\<close>\<close>
  | Res_ok nat string project "nat option"     \<comment> \<open>status, message, project, \<open>filesDeleted\<close>\<close>

definition save :: "string \<Rightarrow> project \<Rightarrow> world \<Rightarrow> (string + unit) \<times> world" where
  "save pid p w =
     (case save_reply w pid p of
        Some msg \<Rightarrow> (Inl msg, w)
      | None \<Rightarrow> (Inr (), w\<lparr>projects := (projects w)(pid \<mapsto> p)\<rparr>))"

text \<open>\<open>xs.indexOf(x)\<close> (the length of the list stands for -1) and \<open>urls?.[i] || ''\<close>.\<close>

fun indexOf :: "string list \<Rightarrow> string \<Rightarrow> nat" where
  "indexOf [] x = 0"
| "indexOf (y # ys) x = (if y = x then 0 else Suc (indexOf ys x))"

definition url_at :: "string list \<Rightarrow> nat \<Rightarrow> string" where
  "url_at urls i = (if i < length urls then urls ! i else [])"

text \<open>\<open>x?.includes(sub)\<close> on an optional string: the string, when it is there and
  includes \<open>sub\<close>.\<close>

definition id_in :: "string option \<Rightarrow> string \<Rightarrow> string option" where
  "id_in x sub =
     (case x of None \<Rightarrow> None | Some s \<Rightarrow> if str_includes s sub then Some s else None)"

fun status_code :: "response \<Rightarrow> nat" where
  "status_code (Res_error n msg) = n"
| "status_code (Res_ok n msg p k) = n"

section \<open>The admin controller (src/controllers/admin.controller.ts)\<close>

text \<open>\<open>project.files.code.publicId = newId\<close> and the same for the document: an
  assignment to a leaf of the nested entry.\<close>

definition set_code_publicId :: "string \<Rightarrow> project \<Rightarrow> project" where
  "set_code_publicId newId p =
     (let f = nested_files (files p);
          x = nested_file (code f)
      in p\<lparr>files := Some (f\<lparr>code := Some (x\<lparr>publicId := Some newId\<rparr>)\<rparr>)\<rparr>)"

definition set_doc_publicId :: "string \<Rightarrow> project \<Rightarrow> project" where
  "set_doc_publicId newId p =
     (let f = nested_files (files p);
          x = nested_file (docPdf f)
      in p\<lparr>files := Some (f\<lparr>docPdf := Some (x\<lparr>publicId := Some newId\<rparr>)\<rparr>)\<rparr>)"

text \<open>\<open>if (info) file.url = info.secureUrl\<close>, where \<open>secureUrl\<close> may be missing; in
  the lists of image URLs a missing one is written as the empty string.\<close>

definition url_of_info :: "string option \<Rightarrow> string" where
  "url_of_info u = (case u of None \<Rightarrow> [] | Some s \<Rightarrow> s)"

definition set_code_url :: "string option option \<Rightarrow> project \<Rightarrow> project" where
  "set_code_url info p =
     (case info of
        None \<Rightarrow> p
      | Some u \<Rightarrow>
          (let f = nested_files (files p);
               x = nested_file (code f)
           in p\<lparr>files := Some (f\<lparr>code := Some (x\<lparr>url := u\<rparr>)\<rparr>)\<rparr>))"

definition set_doc_url :: "string option option \<Rightarrow> project \<Rightarrow> project" where
  "set_doc_url info p =
     (case info of
        None \<Rightarrow> p
      | Some u \<Rightarrow>
          (let f = nested_files (files p);
               x = nested_file (docPdf f)
           in p\<lparr>files := Some (f\<lparr>docPdf := Some (x\<lparr>url := u\<rparr>)\<rparr>)\<rparr>))"

definition set_icon_url :: "string option option \<Rightarrow> project \<Rightarrow> project" where
  "set_icon_url info p = (case info of None \<Rightarrow> p | Some u \<Rightarrow> p\<lparr>iconUrl := u\<rparr>)"

definition project_folder :: "string \<Rightarrow> string \<Rightarrow> string" where
  "project_folder projectId kind = ''softstore/projects/'' @ projectId @ ''/'' @ kind"

subsection \<open>publishProject\<close>

text \<open>The four blocks of \<open>publishProject\<close> that move the files out of \<open>/temp/\<close>. Each
  has its own \<open>try\<close>; its \<open>catch\<close> only logs. The state carried along is the
  document, the flag \<open>filesMoved\<close> and Cloudinary.\<close>

definition publish_icon :: "string \<Rightarrow> project \<times> bool \<times> cloud \<Rightarrow> project \<times> bool \<times> cloud" where
  "publish_icon projectId st =
     (case st of (p, filesMoved, c) \<Rightarrow>
        (case id_in (iconPublicId p) ''/temp/'' of
           None \<Rightarrow> st
         | Some icon \<Rightarrow>
             (case moveCloudinaryFiles icon (project_folder projectId ''icons'') c of
                (Inl err, c1) \<Rightarrow> (p, filesMoved, c1)
              | (Inr newIconId, c1) \<Rightarrow>
                  (set_icon_url (getFileInfo newIconId c1) (p\<lparr>iconPublicId := Some newIconId\<rparr>),
                   True, c1))))"

text \<open>The loop over \<open>project.imagePublicIds\<close>; \<open>p\<close> is the document as it is before
  the loop (the lists are assigned after it).\<close>

fun publish_image_loop ::
  "string \<Rightarrow> project \<Rightarrow> string list \<Rightarrow> bool \<Rightarrow> cloud
     \<Rightarrow> (string list \<times> string list \<times> bool) \<times> cloud" where
  "publish_image_loop projectId p [] filesMoved c = (([], [], filesMoved), c)"
| "publish_image_loop projectId p (imageId # rest) filesMoved c =
     (let kept = url_at (imageUrls p) (indexOf (imagePublicIds p) imageId);
          step =
            (if str_includes imageId ''/temp/''
             then
               (case moveCloudinaryFiles imageId (project_folder projectId ''images'') c of
                  (Inl err, c1) \<Rightarrow> ((imageId, kept, filesMoved), c1)
                | (Inr newImageId, c1) \<Rightarrow>
                    ((newImageId,
                      (case getFileInfo newImageId c1 of
                         None \<Rightarrow> [] | Some u \<Rightarrow> url_of_info u),
                      True), c1))
             else ((imageId, kept, filesMoved), c))
      in case step of ((newId, newUrl, filesMoved1), c1) \<Rightarrow>
           (case publish_image_loop projectId p rest filesMoved1 c1 of
              ((movedImages, movedUrls, filesMoved2), c2) \<Rightarrow>
                ((newId # movedImages, newUrl # movedUrls, filesMoved2), c2)))"

definition publish_images :: "string \<Rightarrow> project \<times> bool \<times> cloud \<Rightarrow> project \<times> bool \<times> cloud" where
  "publish_images projectId st =
     (case st of (p, filesMoved, c) \<Rightarrow>
        if length (imagePublicIds p) > 0
        then
          (case publish_image_loop projectId p (imagePublicIds p) filesMoved c of
             ((movedImages, movedUrls, filesMoved1), c1) \<Rightarrow>
               if filesMoved1
               then (p\<lparr>imagePublicIds := movedImages, imageUrls := movedUrls\<rparr>, filesMoved1, c1)
               else (p, filesMoved1, c1))
        else st)"

definition publish_code :: "string \<Rightarrow> project \<times> bool \<times> cloud \<Rightarrow> project \<times> bool \<times> cloud" where
  "publish_code projectId st =
     (case st of (p, filesMoved, c) \<Rightarrow>
        (case id_in (code_publicId (files p)) ''/temp/'' of
           None \<Rightarrow> st
         | Some codeId \<Rightarrow>
             (case moveCloudinaryFiles codeId (project_folder projectId ''code'') c of
                (Inl err, c1) \<Rightarrow> (p, filesMoved, c1)
              | (Inr newCodeId, c1) \<Rightarrow>
                  (set_code_url (getFileInfo newCodeId c1) (set_code_publicId newCodeId p),
                   True, c1))))"

definition publish_doc :: "string \<Rightarrow> project \<times> bool \<times> cloud \<Rightarrow> project \<times> bool \<times> cloud" where
  "publish_doc projectId st =
     (case st of (p, filesMoved, c) \<Rightarrow>
        (case id_in (doc_publicId (files p)) ''/temp/'' of
           None \<Rightarrow> st
         | Some docId \<Rightarrow>
             (case moveCloudinaryFiles docId (project_folder projectId ''docs'') c of
                (Inl err, c1) \<Rightarrow> (p, filesMoved, c1)
              | (Inr newDocId, c1) \<Rightarrow>
                  (set_doc_url (getFileInfo newDocId c1) (set_doc_publicId newDocId p),
                   True, c1))))"

definition publish_moves :: "string \<Rightarrow> project \<Rightarrow> cloud \<Rightarrow> project \<times> bool \<times> cloud" where
  "publish_moves projectId p c =
     publish_doc projectId (publish_code projectId
       (publish_images projectId (publish_icon projectId (p, False, c))))"

text \<open>After the document is saved the author is notified; the \<open>catch\<close> of the handler
  answers 400 with the message of whatever was thrown.\<close>

definition respond_after_save ::
  "string \<Rightarrow> project \<Rightarrow> nat option \<Rightarrow> bool \<Rightarrow> world \<Rightarrow> response" where
  "respond_after_save message p filesDeleted notify w =
     (if notify
      then (case notify_reply w of
              Some msg \<Rightarrow> Res_error 400 msg
            | None \<Rightarrow> Res_ok 200 message p filesDeleted)
      else Res_ok 200 message p filesDeleted)"

definition publishProject :: "string \<Rightarrow> world \<Rightarrow> response \<times> world" where
  "publishProject pid w =
     (if \<not> isValidObjectId w pid then (Res_error 400 ''ID de proyecto invalido'', w)
      else
        (case projects w pid of
           None \<Rightarrow> (Res_error 404 ''Proyecto no encontrado'', w)
         | Some project0 \<Rightarrow>
             (case publish_moves pid
                     (project0\<lparr>status := Published, publishedAt := Some (now w)\<rparr>) (storage w) of
                (p, filesMoved, c) \<Rightarrow>
                  (case save pid p (w\<lparr>storage := c\<rparr>) of
                     (Inl msg, w1) \<Rightarrow> (Res_error 400 msg, w1)
                   | (Inr u, w1) \<Rightarrow>
                       (respond_after_save ''Proyecto publicado exitosamente'' p None True w1,
                        w1)))))"

subsection \<open>approveDraft\<close>

text \<open>JavaScript truthiness of an optional string, as the string when it is truthy.\<close>

definition truthy_id :: "string option \<Rightarrow> string option" where
  "truthy_id x = (case x of None \<Rightarrow> None | Some s \<Rightarrow> if s = [] then None else Some s)"














subsection \<open>rejectDraft\<close>

text \<open>\<open>feedback.trim()\<close> strips the white space and the line terminators of
  ECMAScript from both ends: TAB, LF, VT, FF, CR, SPACE, NO-BREAK SPACE, the other
  space separators of Unicode (U+1680, U+2000 to U+200A, U+202F, U+205F, U+3000), the
  line and paragraph separators (U+2028, U+2029) and the byte order mark (U+FEFF).
  Each of them is one code unit.\<close>

definition is_space :: "16 word \<Rightarrow> bool" where
  "is_space u \<longleftrightarrow>
     u \<in> {0x0009, 0x000A, 0x000B, 0x000C, 0x000D, 0x0020, 0x00A0, 0x1680,
          0x2000, 0x2001, 0x2002, 0x2003, 0x2004, 0x2005, 0x2006, 0x2007, 0x2008, 0x2009,
          0x200A, 0x2028, 0x2029, 0x202F, 0x205F, 0x3000, 0xFEFF}"

definition trim :: "utf16 \<Rightarrow> utf16" where
  "trim s = rev (dropWhile is_space (rev (dropWhile is_space s)))"

text \<open>\<open>!feedback || typeof feedback !== 'string' || feedback.trim().length === 0\<close>,
  for a feedback that is a string or is missing (or not a string): the trimmed text,
  when the guard lets the request through.\<close>

definition usable_feedback :: "utf16 option \<Rightarrow> utf16 option" where
  "usable_feedback feedback =
     (case feedback of
        None \<Rightarrow> None
      | Some fb \<Rightarrow> if fb = [] \<or> length (trim fb) = 0 then None else Some (trim fb))"

text \<open>The draft's files that the live fields do not reference. \<open>project.draft.files\<close>
  is a nested object, so the test \<open>if (project.draft.files)\<close> holds.\<close>

definition reject_filesToDelete :: "project \<Rightarrow> draft_changes \<Rightarrow> string list" where
  "reject_filesToDelete p d =
     (case truthy_id (d_iconPublicId d) of
        None \<Rightarrow> []
      | Some i \<Rightarrow> if Some i \<noteq> iconPublicId p then [i] else []) @
     (case d_imagePublicIds d of
        None \<Rightarrow> []
      | Some ids \<Rightarrow>
          if length ids > 0
          then filter (\<lambda>draftImageId. draftImageId \<notin> set (imagePublicIds p)) ids else []) @
     (case truthy_id (code_publicId (d_files d)) of
        None \<Rightarrow> []
      | Some i \<Rightarrow> if Some i \<noteq> code_publicId (files p) then [i] else []) @
     (case truthy_id (doc_publicId (d_files d)) of
        None \<Rightarrow> []
      | Some i \<Rightarrow> if Some i \<noteq> doc_publicId (files p) then [i] else [])"

text \<open>The handler. Of the guard \<open>project.draftStatus !== 'pending' || !project.draft\<close>
  the second half never holds.\<close>

definition rejectDraft :: "string \<Rightarrow> utf16 option \<Rightarrow> world \<Rightarrow> response \<times> world" where
  "rejectDraft pid feedback w =
     (if \<not> isValidObjectId w pid then (Res_error 400 ''ID de proyecto invalido'', w)
      else
        (case usable_feedback feedback of
           None \<Rightarrow>
             (Res_error 400 ''Debe proporcionar una razon para rechazar el borrador'', w)
         | Some trimmed \<Rightarrow>
             (case projects w pid of
                None \<Rightarrow> (Res_error 404 ''Proyecto no encontrado'', w)
              | Some project \<Rightarrow>
                  if status project \<noteq> Published
                  then (Res_error 400
                          ''Solo se pueden rechazar borradores de proyectos publicados'', w)
                  else if draftStatus project \<noteq> Draft_pending
                  then (Res_error 400 ''No hay borrador pendiente para este proyecto'', w)
                  else
                    (let filesToDelete = reject_filesToDelete project (the_draft project);
                         c1 = (if length filesToDelete > 0
                               then delete_all_settled filesToDelete (storage w)
                               else storage w);
                         p1 = project\<lparr>draftStatus := Draft_rejected,
                                      draftFeedback := Some trimmed,
                                      draftRejectedAt := Some (now w)\<rparr>
                     in case save pid p1 (w\<lparr>storage := c1\<rparr>) of
                          (Inl msg, w1) \<Rightarrow> (Res_error 400 msg, w1)
                        | (Inr u, w1) \<Rightarrow>
                            (respond_after_save
                               ''Borrador rechazado. El autor fue notificado.''
                               p1 (Some (length filesToDelete)) (owner p1 \<noteq> None) w1,
                             w1)))))"

subsection \<open>Observations on the log of Cloudinary calls\<close>


fun move_failed :: "cloud_event \<Rightarrow> bool" where
  "move_failed (Ev_move src folder None) = True"
| "move_failed _ = False"

text \<open>The sources of the moves of a log, those of its moves that succeeded, and the
  public ids of its deletions.\<close>

fun move_sources :: "cloud_event list \<Rightarrow> string list" where
  "move_sources [] = []"
| "move_sources (Ev_move src folder r # es) = src # move_sources es"
| "move_sources (e # es) = move_sources es"

fun moved_ok :: "cloud_event list \<Rightarrow> string list" where
  "moved_ok [] = []"
| "moved_ok (Ev_move src folder (Some newId) # es) = src # moved_ok es"
| "moved_ok (e # es) = moved_ok es"

text \<open>The copies that the successful moves of a log made: the new public id, under
  the resource type of the source.\<close>

fun copies :: "cloud_event list \<Rightarrow> (string \<times> resource_type) list" where
  "copies [] = []"
| "copies (Ev_move src folder (Some newId) # es) = (newId, move_resource_type src) # copies es"
| "copies (e # es) = copies es"

fun deleted_ids :: "cloud_event list \<Rightarrow> string list" where
  "deleted_ids [] = []"
| "deleted_ids (Ev_delete i ok # es) = i # deleted_ids es"
| "deleted_ids (e # es) = deleted_ids es"

text \<open>A move out of a staging folder into one of the four folders of a project.\<close>

fun move_into :: "string \<Rightarrow> cloud_event \<Rightarrow> bool" where
  "move_into projectId (Ev_move src folder r) =
     (folder \<in> {project_folder projectId ''icons'', project_folder projectId ''images'',
                 project_folder projectId ''code'', project_folder projectId ''docs''})"
| "move_into projectId _ = False"

text \<open>The oracle fields of Cloudinary; no operation changes them.\<close>

definition same_oracles :: "cloud \<Rightarrow> cloud \<Rightarrow> bool" where
  "same_oracles c c' \<longleftrightarrow>
     resource_reply c' = resource_reply c \<and> upload_reply c' = upload_reply c \<and>
     stream_reply c' = stream_reply c \<and> destroy_fault c' = destroy_fault c"

text \<open>Whether Cloudinary serves the request that \<open>deleteFromCloudinary\<close> sends for
  a public id; the call returns normally exactly then.\<close>

definition delete_served :: "cloud \<Rightarrow> string \<Rightarrow> bool" where
  "delete_served c assetId \<longleftrightarrow> destroy_fault c assetId (delete_resource_type assetId) = None"




text \<open>What a run of moves may add to the log: moves into the folders of the project
  only, one of them failed exactly when \<open>failed\<close>; the oracles are untouched.\<close>

definition moves_only :: "string \<Rightarrow> cloud \<Rightarrow> cloud \<Rightarrow> bool \<Rightarrow> bool" where
  "moves_only projectId c c' failed \<longleftrightarrow>
     same_oracles c c' \<and>
     (\<exists>ms. cloud_log c' = cloud_log c @ ms \<and> (\<forall>e\<in>set ms. move_into projectId e) \<and>
           ((\<exists>e\<in>set ms. move_failed e) \<longleftrightarrow> failed))"


subsection \<open>Concrete inputs\<close>

text \<open>A Cloudinary that holds the given assets and serves every request, without
  faults; and one whose \<open>api.resource\<close> rejects for one public id.\<close>

definition cloud_ok :: "(string \<times> resource_type) set \<Rightarrow> cloud" where
  "cloud_ok held =
     \<lparr>assets = held,
      resource_reply = (\<lambda>i rt. Inr (Some (''https://cdn.example/'' @ i))),
      upload_reply = (\<lambda>u pubId folder rt. Inr (folder @ ''/'' @ pubId)),
      stream_reply = (\<lambda>name folder rt.
        Inr (Some \<lparr>fileId = folder @ ''/'' @ name,
                   secureUrl = ''https://cdn.example/'' @ folder @ ''/'' @ name\<rparr>)),
      destroy_fault = (\<lambda>i rt. None),
      cloud_log = []\<rparr>"

definition cloud_missing :: "string \<Rightarrow> (string \<times> resource_type) set \<Rightarrow> cloud" where
  "cloud_missing bad held =
     (cloud_ok held)\<lparr>resource_reply :=
        (\<lambda>i rt. if i = bad then Inl ''Resource not found''
                 else Inr (Some (''https://cdn.example/'' @ i)))\<rparr>"

definition stored_file :: "string \<Rightarrow> string \<Rightarrow> project_file" where
  "stored_file i name =
     \<lparr>file_type = Some ''cloudinary'', url = Some (''https://cdn.example/'' @ i),
      publicId = Some i,
      fileName = Some name, virusScan = None\<rparr>"

text \<open>A project waiting for moderation, its files in the staging folder.\<close>

definition staged_project :: project where
  "staged_project =
     \<lparr>title = ''Demo app'', shortDesc = ''A short description'',
      longDesc = ''A long description of the demo app'',
      iconPublicId = Some ''softstore/temp/icons/icon_demo'',
      iconUrl = Some ''https://cdn.example/softstore/temp/icons/icon_demo'',
      imagePublicIds = [], imageUrls = [],
      files = Some \<lparr>app = None,
                     code = Some (stored_file ''softstore/temp/code/code_demo.zip'' ''demo.zip''),
                     docPdf = None\<rparr>,
      owner = Some ''user1'', status = Pending, publishedAt = None,
      draftStatus = Draft_none, draft = None, draftSubmittedAt = None,
      draftFeedback = None, draftRejectedAt = None\<rparr>"

text \<open>A published project, and the same with a pending draft that replaces the code
  archive and adds a screenshot.\<close>

definition live_project :: project where
  "live_project =
     \<lparr>title = ''Demo app'', shortDesc = ''A short description'',
      longDesc = ''A long description of the demo app'',
      iconPublicId = Some ''softstore/projects/p1/icons/icon_demo'',
      iconUrl = Some ''https://cdn.example/softstore/projects/p1/icons/icon_demo'',
      imagePublicIds = [''softstore/projects/p1/images/shot1''],
      imageUrls = [''https://cdn.example/softstore/projects/p1/images/shot1''],
      files = Some \<lparr>app = None,
                     code = Some (stored_file ''softstore/projects/p1/code/code_old'' ''old.zip''),
                     docPdf = None\<rparr>,
      owner = Some ''user1'', status = Published, publishedAt = Some 10,
      draftStatus = Draft_none, draft = None, draftSubmittedAt = None,
      draftFeedback = None, draftRejectedAt = None\<rparr>"

definition demo_draft :: draft_changes where
  "demo_draft =
     \<lparr>d_title = None, d_shortDesc = None, d_longDesc = None,
      d_iconPublicId = None, d_iconUrl = None,
      d_imagePublicIds = Some [''softstore/projects/p1/images/shot1'',
                               ''softstore/updates/p1/images/shot2''],
      d_imageUrls = Some [''https://cdn.example/softstore/projects/p1/images/shot1'',
                          ''https://cdn.example/softstore/updates/p1/images/shot2''],
      d_files = Some \<lparr>app = None,
                       code = Some (stored_file ''softstore/updates/p1/code/code_new'' ''new.zip''),
                       docPdf = None\<rparr>\<rparr>"

definition drafted_project :: project where
  "drafted_project =
     live_project\<lparr>draftStatus := Draft_pending, draft := Some demo_draft,
                  draftSubmittedAt := Some 50\<rparr>"



text \<open>The code units of a string of ASCII characters.\<close>

definition utf16_of :: "string \<Rightarrow> utf16" where
  "utf16_of s = map (\<lambda>ch. of_nat (of_char ch)) s"

definition drafted_assets :: "(string \<times> resource_type) set" where
  "drafted_assets =
     {(''softstore/projects/p1/icons/icon_demo'', Image),
      (''softstore/projects/p1/images/shot1'', Image),
      (''softstore/projects/p1/code/code_old'', Raw),
      (''softstore/updates/p1/images/shot2'', Image),
      (''softstore/updates/p1/code/code_new'', Raw)}"

text \<open>The world with one project, under the id \<open>p1\<close>, at time 100.\<close>

definition world_of :: "project \<Rightarrow> cloud \<Rightarrow> world" where
  "world_of p c =
     \<lparr>projects = [''p1'' \<mapsto> p],
      companies = [''c1'' \<mapsto> \<lparr>ownerId = ''user1'', members = [(''user2'', [''Publisher''])]\<rparr>],
      fresh_id = ''p2'', storage = c, av = service ''key'' 0 [], now = 100,
      isValidObjectId = (\<lambda>i. i \<noteq> []), save_reply = (\<lambda>i q. None), notify_reply = None\<rparr>"

text \<open>The draft's assets that the live fields do not reference, in the words of the
  specification: an asset of the draft shadow (icon, image, code archive, document)
  whose identifier is not the one, or among the ones, of the corresponding live field.\<close>

definition draft_only_assets :: "project \<Rightarrow> draft_changes \<Rightarrow> string set" where
  "draft_only_assets p d =
     {i. truthy_id (d_iconPublicId d) = Some i \<and> iconPublicId p \<noteq> Some i} \<union>
     {i. \<exists>ids. d_imagePublicIds d = Some ids \<and> i \<in> set ids \<and> i \<notin> set (imagePublicIds p)} \<union>
     {i. truthy_id (code_publicId (d_files d)) = Some i \<and> code_publicId (files p) \<noteq> Some i} \<union>
     {i. truthy_id (doc_publicId (d_files d)) = Some i \<and> doc_publicId (files p) \<noteq> Some i}"

definition staged_assets :: "(string \<times> resource_type) set" where
  "staged_assets =
     {(''softstore/temp/icons/icon_demo'', Image), (''softstore/temp/code/code_demo.zip'', Raw)}"

text \<open>Publishing while Cloudinary cannot find the code archive; publishing a project
  that was rejected.\<close>

definition publish_with_failed_move :: "response \<times> world" where
  "publish_with_failed_move =
     publishProject ''p1''
       (world_of staged_project (cloud_missing ''softstore/temp/code/code_demo.zip'' staged_assets))"

definition publish_rejected :: "response \<times> world" where
  "publish_rejected =
     publishProject ''p1''
       (world_of (staged_project\<lparr>status := Rejected\<rparr>) (cloud_ok staged_assets))"

text \<open>What a block of \<open>publishProject\<close> does to the state it carries: the status and
  the publication date of the document stay, Cloudinary sees moves into the project's
  folders only.\<close>

definition publish_frame ::
  "string \<Rightarrow> project \<times> bool \<times> cloud \<Rightarrow> project \<times> bool \<times> cloud \<Rightarrow> bool" where
  "publish_frame pid st st' \<longleftrightarrow>
     (case st of (p, fm, c) \<Rightarrow> case st' of (p', fm', c') \<Rightarrow>
        status p' = status p \<and> publishedAt p' = publishedAt p \<and>
        (\<exists>failed. moves_only pid c c' failed))"

section \<open>The projects controller (src/controllers/projects.controller.ts)\<close>

subsection \<open>updateProject: the branch for a published project and a non-admin\<close>

text \<open>
  The body of the request, as far as the branch reads it. \<open>req.user\<close> is the
  requester, if authenticated; the company is the populated \<open>project.companyId\<close>.
  The id of the request is taken to be well-formed.
\<close>

record update_body =
  b_title :: "string option"
  b_shortDesc :: "string option"
  b_longDesc :: "string option"
  b_iconPublicId :: "string option"
  b_iconUrl :: "string option"
  b_imagePublicIds :: "string list option"
  b_imageUrls :: "string list option"
  b_files :: "project_files option"

record requester =
  user_id :: string
  user_role :: string

text \<open>\<open>if (req.body.x && req.body.x !== project.x) draftChanges.x = req.body.x\<close>.\<close>

definition changed_text :: "string option \<Rightarrow> string \<Rightarrow> string option" where
  "changed_text submitted live =
     (case truthy_id submitted of
        None \<Rightarrow> None
      | Some t \<Rightarrow> if t \<noteq> live then Some t else None)"

definition icon_changed :: "project \<Rightarrow> update_body \<Rightarrow> bool" where
  "icon_changed p body =
     (case b_iconPublicId body of None \<Rightarrow> False | Some i \<Rightarrow> Some i \<noteq> iconPublicId p)"

text \<open>The two lists are compared through \<open>JSON.stringify\<close>, which is injective on
  arrays of strings.\<close>

definition images_changed :: "project \<Rightarrow> update_body \<Rightarrow> bool" where
  "images_changed p body =
     (case b_imagePublicIds body of None \<Rightarrow> False | Some ids \<Rightarrow> ids \<noteq> imagePublicIds p)"

text \<open>\<open>if (req.body.files)\<close>: the live files are copied, the entries of the body
  overwrite them, and every entry of the body counts as a change (it is not compared
  with the live one).\<close>

definition overwrite :: "project_file option \<Rightarrow> project_file option \<Rightarrow> project_file option" where
  "overwrite submitted live = (case submitted of None \<Rightarrow> live | Some f \<Rightarrow> Some f)"

definition draft_files_of_body :: "project \<Rightarrow> project_files \<Rightarrow> project_files" where
  "draft_files_of_body p bf =
     (let live = (case files p of None \<Rightarrow> no_files | Some f \<Rightarrow> f)
      in \<lparr>app = overwrite (app bf) (app live),
          code = overwrite (code bf) (code live),
          docPdf = overwrite (docPdf bf) (docPdf live)\<rparr>)"

definition files_changed :: "update_body \<Rightarrow> bool" where
  "files_changed body =
     (case b_files body of
        None \<Rightarrow> False
      | Some bf \<Rightarrow> app bf \<noteq> None \<or> code bf \<noteq> None \<or> docPdf bf \<noteq> None)"

definition draftChanges :: "project \<Rightarrow> update_body \<Rightarrow> draft_changes" where
  "draftChanges p body =
     \<lparr>d_title = changed_text (b_title body) (title p),
      d_shortDesc = changed_text (b_shortDesc body) (shortDesc p),
      d_longDesc = changed_text (b_longDesc body) (longDesc p),
      d_iconPublicId = (if icon_changed p body then b_iconPublicId body else None),
      d_iconUrl = (if icon_changed p body then b_iconUrl body else None),
      d_imagePublicIds = (if images_changed p body then b_imagePublicIds body else None),
      d_imageUrls = (if images_changed p body then b_imageUrls body else None),
      d_files = map_option (draft_files_of_body p) (b_files body)\<rparr>"

definition hasChanges :: "project \<Rightarrow> update_body \<Rightarrow> bool" where
  "hasChanges p body \<longleftrightarrow>
     changed_text (b_title body) (title p) \<noteq> None \<or>
     changed_text (b_shortDesc body) (shortDesc p) \<noteq> None \<or>
     changed_text (b_longDesc body) (longDesc p) \<noteq> None \<or>
     icon_changed p body \<or> images_changed p body \<or> files_changed body"

text \<open>The handler answers, or goes on to the direct edit (an admin, or a project that
  is not published), which is not modelled.\<close>

datatype update_outcome = Answered response | Direct_edit

definition isPublisher :: "company option \<Rightarrow> string \<Rightarrow> bool" where
  "isPublisher co uid =
     (case co of
        None \<Rightarrow> False
      | Some c \<Rightarrow>
          (case find (\<lambda>m. fst m = uid) (members c) of
             None \<Rightarrow> False
           | Some m \<Rightarrow> ''Publisher'' \<in> set (snd m)))"

definition isOwner :: "company option \<Rightarrow> string \<Rightarrow> bool" where
  "isOwner co uid = (case co of None \<Rightarrow> False | Some c \<Rightarrow> ownerId c = uid)"

definition updateProject ::
  "requester option \<Rightarrow> company option \<Rightarrow> string \<Rightarrow> update_body \<Rightarrow> world
     \<Rightarrow> update_outcome \<times> world" where
  "updateProject user co pid body w =
     (case user of
        None \<Rightarrow> (Answered (Res_error 401 ''Usuario no autenticado''), w)
      | Some u \<Rightarrow>
          (case projects w pid of
             None \<Rightarrow> (Answered (Res_error 404 ''Project not found''), w)
           | Some project \<Rightarrow>
               let isAdmin = (user_role u = ''admin'')
               in if \<not> isAdmin \<and> \<not> isOwner co (user_id u) \<and> \<not> isPublisher co (user_id u)
                  then (Answered (Res_error 403
                          ''No tienes permisos para editar este proyecto. Solo el Owner o miembros con rol Publisher pueden editarlo.''),
                        w)
                  else if status project = Published \<and> \<not> isAdmin
                  then
                    (if \<not> hasChanges project body
                     then (Answered (Res_error 400 ''No se detectaron cambios para guardar''), w)
                     else
                       (let p1 = project\<lparr>draft := Some (draftChanges project body),
                                          draftStatus := Draft_pending,
                                          draftSubmittedAt := Some (now w),
                                          draftFeedback := None,
                                          draftRejectedAt := None\<rparr>
                        in case save pid p1 w of
                             (Inl msg, w1) \<Rightarrow> (Answered (Res_error 400 msg), w1)
                           | (Inr u, w1) \<Rightarrow>
                               (Answered (Res_ok 200
                                  ''Los cambios se han guardado como borrador y seran revisados por un administrador. La version actual permanece publicada.''
                                  p1 None), w1)))
                  else (Direct_edit, w)))"

text \<open>An edit that submits the code archive the project already has, and nothing else.\<close>

definition same_code_body :: update_body where
  "same_code_body =
     \<lparr>b_title = None, b_shortDesc = None, b_longDesc = None, b_iconPublicId = None,
      b_iconUrl = None, b_imagePublicIds = None, b_imageUrls = None,
      b_files = Some \<lparr>app = None,
                       code = Some (stored_file ''softstore/projects/p1/code/code_old'' ''old.zip''),
                       docPdf = None\<rparr>\<rparr>"

text \<open>An edit of the short description only; an edit that repeats the live title.\<close>

definition shortDesc_body :: update_body where
  "shortDesc_body =
     \<lparr>b_title = None, b_shortDesc = Some ''A better short description'', b_longDesc = None,
      b_iconPublicId = None, b_iconUrl = None, b_imagePublicIds = None, b_imageUrls = None,
      b_files = None\<rparr>"

definition same_title_body :: update_body where
  "same_title_body =
     \<lparr>b_title = Some ''Demo app'', b_shortDesc = None, b_longDesc = None,
      b_iconPublicId = None, b_iconUrl = None, b_imagePublicIds = None, b_imageUrls = None,
      b_files = None\<rparr>"

definition author :: requester where
  "author = \<lparr>user_id = ''user1'', user_role = ''user''\<rparr>"

definition demo_company :: company where
  "demo_company = \<lparr>ownerId = ''user1'', members = [(''user2'', [''Publisher''])]\<rparr>"

definition edit_same_code :: "update_outcome \<times> world" where
  "edit_same_code =
     updateProject (Some author) (Some demo_company) ''p1'' same_code_body
       (world_of live_project (cloud_ok drafted_assets))"

subsection \<open>createProjectWithFiles\<close>

text \<open>
  The request: \<open>req.user?.id\<close>, the body that \<open>basicSchema\<close> parses and the files that
  multer collected. The body is taken to carry every field with its type; what the
  schema adds are the bounds below. The name under which a file is uploaded is put
  together from a prefix, the sanitised title, \<open>Date.now()\<close>, the extension of the
  original name and, for the images, an index; it only travels to Cloudinary, and the
  function that builds it is the parameter \<open>naming\<close>. On a body outside the bounds
  \<open>basicSchema.parse\<close> throws a \<open>ZodError\<close>, whose message the zod library builds from
  the issues it found; the handler answers with it, and it is the parameter
  \<open>zodMessage\<close>.
\<close>

record upload_file =
  file_buffer :: buffer
  originalname :: string
  mimetype :: string

record request_files =
  f_icon :: "upload_file list"
  f_images :: "upload_file list"
  f_app :: "upload_file list"
  f_code :: "upload_file list"
  f_doc :: "upload_file list"

record create_body =
  c_title :: string
  c_shortDesc :: string
  c_longDesc :: string
  c_categories :: "string list"
  c_platforms :: "string list"
  c_companyId :: string
  c_participants :: "string list"

type_synonym naming = "string \<Rightarrow> string \<Rightarrow> nat \<Rightarrow> string \<Rightarrow> nat \<Rightarrow> string"

definition basic_valid :: "create_body \<Rightarrow> bool" where
  "basic_valid body \<longleftrightarrow>
     length (c_title body) \<ge> 3 \<and> length (c_shortDesc body) \<ge> 10 \<and>
     length (c_longDesc body) \<ge> 20 \<and> length (c_categories body) \<ge> 1 \<and>
     length (c_platforms body) \<ge> 1 \<and>
     set (c_platforms body) \<subseteq> {''Android'', ''iOS'', ''Windows'', ''Linux'', ''macOS'', ''Web''} \<and>
     length (c_participants body) \<ge> 1"

definition new_project :: "create_body \<Rightarrow> company \<Rightarrow> project" where
  "new_project body co =
     \<lparr>title = c_title body, shortDesc = c_shortDesc body, longDesc = c_longDesc body,
      iconPublicId = None, iconUrl = None, imagePublicIds = [], imageUrls = [],
      files = None, owner = Some (ownerId co), status = Pending, publishedAt = None,
      draftStatus = Draft_none, draft = None, draftSubmittedAt = None,
      draftFeedback = None, draftRejectedAt = None\<rparr>"

text \<open>The state of the handler while it uploads: the world, \<open>uploadedFileIds\<close>, the
  document with \<open>updates\<close> applied and whether \<open>updates\<close> has a key. \<open>verdicts\<close> records
  the results of the scans of this request, in order; the handler does not read it.\<close>

record creation =
  cr_world :: world
  uploadedFileIds :: "string list"
  cr_project :: project
  has_updates :: bool
  verdicts :: "VirusTotalScanResult list"

definition upload_folder :: "string \<Rightarrow> string \<Rightarrow> string" where
  "upload_folder projectId kind = ''softstore/'' @ projectId @ ''/'' @ kind"

definition with_storage :: "cloud \<Rightarrow> creation \<Rightarrow> creation" where
  "with_storage c cr = cr\<lparr>cr_world := (cr_world cr)\<lparr>storage := c\<rparr>\<rparr>"

text \<open>Each block returns the message of what it threw, if it threw.\<close>

definition upload_icon :: "naming \<Rightarrow> string \<Rightarrow> request_files \<Rightarrow> creation \<Rightarrow> string option \<times> creation" where
  "upload_icon naming projectId fs cr =
     (case f_icon fs of
        [] \<Rightarrow> (None, cr)
      | iconFile # others \<Rightarrow>
          (case uploadToCloudinary
                  (naming ''icon'' (title (cr_project cr)) (now (cr_world cr)) (originalname iconFile) 0)
                  (mimetype iconFile) (upload_folder projectId ''icons'') (storage (cr_world cr)) of
             (Inl e, c1) \<Rightarrow> (Some e, with_storage c1 cr)
           | (Inr r, c1) \<Rightarrow>
               (None, (with_storage c1 cr)
                  \<lparr>uploadedFileIds := uploadedFileIds cr @ [fileId r],
                   cr_project := (cr_project cr)\<lparr>iconPublicId := Some (fileId r),
                                                 iconUrl := Some (secureUrl r)\<rparr>,
                   has_updates := True\<rparr>)))"

text \<open>The loop over the first five images; \<open>i\<close> counts from 0. The results are in
  \<open>imageResults\<close>.\<close>

fun upload_images_loop ::
  "naming \<Rightarrow> string \<Rightarrow> nat \<Rightarrow> upload_file list \<Rightarrow> creation
     \<Rightarrow> (string option \<times> UploadResult list) \<times> creation" where
  "upload_images_loop naming projectId i [] cr = ((None, []), cr)"
| "upload_images_loop naming projectId i (imgFile # rest) cr =
     (case uploadToCloudinary
             (naming ''image'' (title (cr_project cr)) (now (cr_world cr)) (originalname imgFile) (i + 1))
             (mimetype imgFile) (upload_folder projectId ''images'') (storage (cr_world cr)) of
        (Inl e, c1) \<Rightarrow> ((Some e, []), with_storage c1 cr)
      | (Inr r, c1) \<Rightarrow>
          (case upload_images_loop naming projectId (i + 1) rest
                  ((with_storage c1 cr)\<lparr>uploadedFileIds := uploadedFileIds cr @ [fileId r]\<rparr>) of
             ((thrown, imageResults), cr2) \<Rightarrow> ((thrown, r # imageResults), cr2)))"

definition upload_images ::
  "naming \<Rightarrow> string \<Rightarrow> request_files \<Rightarrow> creation \<Rightarrow> string option \<times> creation" where
  "upload_images naming projectId fs cr =
     (if length (f_images fs) > 0
      then
        (case upload_images_loop naming projectId 0 (take 5 (f_images fs)) cr of
           ((Some e, imageResults), cr1) \<Rightarrow> (Some e, cr1)
         | ((None, imageResults), cr1) \<Rightarrow>
             (None, cr1\<lparr>cr_project := (cr_project cr1)
                            \<lparr>imagePublicIds := map fileId imageResults,
                             imageUrls := map secureUrl imageResults\<rparr>,
                         has_updates := True\<rparr>))
      else (None, cr))"

text \<open>\<open>threats.join(', ')\<close>.\<close>

fun join_with :: "string \<Rightarrow> string list \<Rightarrow> string" where
  "join_with sep [] = []"
| "join_with sep [x] = x"
| "join_with sep (x # y # ys) = x @ sep @ join_with sep (y # ys)"

definition malware_message :: "string \<Rightarrow> VirusTotalScanResult \<Rightarrow> string" where
  "malware_message label v = label @ '' contiene malware: '' @ join_with '', '' (threats v)"

text \<open>The blocks for the application, the code archive and the document are the same
  but for the label of the error, the prefix of the name, the folder and the entry of
  \<open>updates.files\<close> that is set: scan, throw if the verdict is not safe, upload.\<close>

definition set_file ::
  "string \<Rightarrow> project_file \<Rightarrow> project \<Rightarrow> project" where
  "set_file kind f p =
     (let fs = (case files p of None \<Rightarrow> no_files | Some x \<Rightarrow> x)
      in p\<lparr>files := Some (if kind = ''apps'' then fs\<lparr>app := Some f\<rparr>
                           else if kind = ''code'' then fs\<lparr>code := Some f\<rparr>
                           else fs\<lparr>docPdf := Some f\<rparr>)\<rparr>)"

definition upload_scanned ::
  "(buffer \<Rightarrow> string) \<Rightarrow> naming \<Rightarrow> string \<Rightarrow> string \<Rightarrow> string \<Rightarrow> string
     \<Rightarrow> upload_file list \<Rightarrow> creation \<Rightarrow> string option \<times> creation" where
  "upload_scanned sha256 naming projectId label prefix kind submitted cr =
     (case submitted of
        [] \<Rightarrow> (None, cr)
      | file # others \<Rightarrow>
          (case scanWithVirusTotal sha256 (av (cr_world cr)) (file_buffer file) (originalname file) of
             (scanned, av1) \<Rightarrow>
               (let cr1 = cr\<lparr>cr_world := (cr_world cr)\<lparr>av := av1\<rparr>,
                            verdicts := verdicts cr @ [scanned]\<rparr>
                in if \<not> isSafe scanned then (Some (malware_message label scanned), cr1)
                   else
                     (case uploadToCloudinary
                             (naming prefix (title (cr_project cr1)) (now (cr_world cr1))
                                (originalname file) 0)
                             (mimetype file) (upload_folder projectId kind)
                             (storage (cr_world cr1)) of
                        (Inl e, c1) \<Rightarrow> (Some e, with_storage c1 cr1)
                      | (Inr r, c1) \<Rightarrow>
                          (None, (with_storage c1 cr1)
                             \<lparr>uploadedFileIds := uploadedFileIds cr1 @ [fileId r],
                              cr_project := set_file kind
                                \<lparr>file_type = Some ''cloudinary'', url = Some (secureUrl r),
                                 publicId = Some (fileId r),
                                 fileName = Some (originalname file),
                                 virusScan = Some scanned\<rparr> (cr_project cr1),
                              has_updates := True\<rparr>)))))"

text \<open>Sequencing: a block runs if nothing was thrown before it.\<close>

definition and_then ::
  "string option \<times> creation \<Rightarrow> (creation \<Rightarrow> string option \<times> creation)
     \<Rightarrow> string option \<times> creation" where
  "and_then r f = (case r of (Some e, cr) \<Rightarrow> (Some e, cr) | (None, cr) \<Rightarrow> f cr)"

text \<open>Step 5 saves the document if \<open>updates\<close> has a key; step 6 notifies the author.\<close>

definition save_updates :: "string \<Rightarrow> creation \<Rightarrow> string option \<times> creation" where
  "save_updates projectId cr =
     (if has_updates cr
      then (case save projectId (cr_project cr) (cr_world cr) of
              (Inl msg, w1) \<Rightarrow> (Some msg, cr\<lparr>cr_world := w1\<rparr>)
            | (Inr u, w1) \<Rightarrow> (None, cr\<lparr>cr_world := w1\<rparr>))
      else (None, cr))"

definition notify_submitted :: "creation \<Rightarrow> string option \<times> creation" where
  "notify_submitted cr = (notify_reply (cr_world cr), cr)"

definition creation_steps ::
  "(buffer \<Rightarrow> string) \<Rightarrow> naming \<Rightarrow> string \<Rightarrow> request_files \<Rightarrow> creation
     \<Rightarrow> string option \<times> creation" where
  "creation_steps sha256 naming projectId fs cr =
     and_then (and_then (and_then (and_then (and_then (and_then
       (upload_icon naming projectId fs cr)
       (upload_images naming projectId fs))
       (upload_scanned sha256 naming projectId ''Archivo'' ''app'' ''apps'' (f_app fs)))
       (upload_scanned sha256 naming projectId ''Codigo'' ''code'' ''code'' (f_code fs)))
       (upload_scanned sha256 naming projectId ''Documento'' ''doc'' ''docs'' (f_doc fs)))
       (save_updates projectId))
       notify_submitted"

text \<open>Step 7, the \<open>catch\<close>: the uploaded files are deleted, rejections dropped, and the
  document is deleted.\<close>

definition rollback :: "string \<Rightarrow> creation \<Rightarrow> world" where
  "rollback projectId cr =
     (let w = cr_world cr;
          c1 = (if length (uploadedFileIds cr) > 0
                then delete_all_settled (uploadedFileIds cr) (storage w) else storage w)
      in w\<lparr>storage := c1, projects := (projects w)(projectId := None)\<rparr>)"

definition start_creation :: "world \<Rightarrow> project \<Rightarrow> creation" where
  "start_creation w p =
     \<lparr>cr_world = w, uploadedFileIds = [], cr_project = p, has_updates = False, verdicts = []\<rparr>"

definition createProjectWithFiles ::
  "(buffer \<Rightarrow> string) \<Rightarrow> naming \<Rightarrow> (create_body \<Rightarrow> string) \<Rightarrow> string option \<Rightarrow> create_body
     \<Rightarrow> request_files \<Rightarrow> world \<Rightarrow> response \<times> world" where
  "createProjectWithFiles sha256 naming zodMessage userId body fs w =
     (case userId of
        None \<Rightarrow> (Res_error 401 ''Usuario no autenticado'', w)
      | Some uid \<Rightarrow>
          if \<not> basic_valid body then (Res_error 400 (zodMessage body), w)
          else
            (case companies w (c_companyId body) of
               None \<Rightarrow> (Res_error 404 ''Empresa no encontrada'', w)
             | Some co \<Rightarrow>
                 if \<not> isOwner (Some co) uid \<and> \<not> isPublisher (Some co) uid
                 then (Res_error 403 ''No tienes permisos para crear proyectos'', w)
                 else
                   (case save (fresh_id w) (new_project body co) w of
                      (Inl msg, w1) \<Rightarrow> (Res_error 400 msg, w1)
                    | (Inr u, w1) \<Rightarrow>
                        (case creation_steps sha256 naming (fresh_id w) fs
                                (start_creation w1 (new_project body co)) of
                           (None, cr) \<Rightarrow>
                             (Res_ok 201 ''Proyecto creado exitosamente y enviado para revision''
                                (cr_project cr) None, cr_world cr)
                         | (Some msg, cr) \<Rightarrow> (Res_error 400 msg, rollback (fresh_id w) cr)))))"

subsection \<open>Observations on a creation\<close>

fun uploads_of :: "cloud_event list \<Rightarrow> string list" where
  "uploads_of [] = []"
| "uploads_of (Ev_upload name folder (Some i) # es) = i # uploads_of es"
| "uploads_of (e # es) = uploads_of es"

text \<open>What the blocks of a creation do to its state: the ids added to
  \<open>uploadedFileIds\<close> are those of the uploads that Cloudinary logged as stored, and a
  verdict that is not safe was thrown as the malware message of one of the three
  labels.\<close>

definition creation_frame :: "creation \<Rightarrow> string option \<Rightarrow> creation \<Rightarrow> bool" where
  "creation_frame cr0 thrown cr \<longleftrightarrow>
     (\<exists>ids vs.
        uploadedFileIds cr = uploadedFileIds cr0 @ ids \<and>
        uploads_of (cloud_log (storage (cr_world cr))) =
          uploads_of (cloud_log (storage (cr_world cr0))) @ ids \<and>
        verdicts cr = verdicts cr0 @ vs \<and>
        (\<forall>v\<in>set vs. \<not> isSafe v \<longrightarrow>
           (\<exists>label\<in>{''Archivo'', ''Codigo'', ''Documento''}.
              thrown = Some (malware_message label v))))"

subsection \<open>A concrete creation\<close>

text \<open>The names that the handler builds for the title \<open>Photo editor\<close> at the clock
  reading 100: the prefix, the sanitised title, \<open>Date.now()\<close> and the extension of the
  original name (the request below carries no screenshots, so no index is needed).\<close>

definition demo_naming :: naming where
  "demo_naming prefix ttl t original i =
     prefix @ ''_photo_editor_100'' @ dropWhile (\<lambda>ch. ch \<noteq> CHR ''.'') original"

definition demo_zodMessage :: "create_body \<Rightarrow> string" where
  "demo_zodMessage body = ''Invalid input''"

definition demo_body :: create_body where
  "demo_body =
     \<lparr>c_title = ''Photo editor'', c_shortDesc = ''A short description'',
      c_longDesc = ''A long description of the new app'', c_categories = [''tools''],
      c_platforms = [''Web''], c_companyId = ''c1'', c_participants = [''user1'']\<rparr>"

text \<open>A request by the owner of company \<open>c1\<close> with an icon, a code archive and a
  document: VirusTotal knows both hashes, reports the archive clean and one detection
  in the document. Cloudinary holds nothing yet and serves every request.\<close>

definition demo_files_doc :: request_files where
  "demo_files_doc =
     \<lparr>f_icon = [\<lparr>file_buffer = [1, 2], originalname = ''logo.png'', mimetype = ''image/png''\<rparr>],
      f_images = [], f_app = [],
      f_code = [\<lparr>file_buffer = [3, 4, 5], originalname = ''src.zip'',
                 mimetype = ''application/zip''\<rparr>],
      f_doc = [\<lparr>file_buffer = [6, 7, 8, 9], originalname = ''manual.pdf'',
                mimetype = ''application/pdf''\<rparr>]\<rparr>"

definition infected_doc_world :: world where
  "infected_doc_world =
     (world_of live_project (cloud_ok {}))
       \<lparr>av := service ''key'' 0
          [Http_ok (reply_json 1 0 []), Http_ok (reply_json 1 1 engines_labelled)]\<rparr>"

definition create_infected_doc :: "response \<times> world" where
  "create_infected_doc =
     createProjectWithFiles demo_hash demo_naming demo_zodMessage (Some ''user1'') demo_body
       demo_files_doc infected_doc_world"

section \<open>Properties of the antivirus service\<close>

subsection \<open>Frame lemmas\<close>

lemma truthy_simps [simp]: "truthy None = False" "truthy (Some t) = (t \<noteq> [])"
  by (simp_all add: truthy_def)

lemma set_processEngineResults:
  "set (processEngineResults sc) =
     {n @ '': '' @ t | n e t. (n, e) \<in> set sc \<and> detected e \<and> result e = Some t \<and> t \<noteq> []}"
proof (induction sc)
  case Nil
  then show ?case by simp
next
  case (Cons a sc)
  obtain n e where a: "a = (n, e)" by (cases a)
  show ?case
    unfolding a using Cons.IH
    by (cases "result e") (auto)
qed

lemma rateLimitCheck_frame:
  "rateLimitCheck s = (r, s') \<Longrightarrow> net s' = net s \<and> calls s' = calls s \<and> API_KEY s' = API_KEY s"
  by (auto simp: rateLimitCheck_def Let_def sleep_def split: if_splits)

lemma rateLimitCheck_ok:
  "dailyRequestCount s < 500 \<Longrightarrow> \<exists>s'. rateLimitCheck s = (Inr (), s')"
  by (auto simp: rateLimitCheck_def Let_def sleep_def split: if_splits)

lemma rateLimitCheck_throws:
  "rateLimitCheck s = (Inl e, s') \<Longrightarrow> rateLimitCheck s' = (Inl e, s')"
  by (auto simp: rateLimitCheck_def Let_def sleep_def split: if_splits)

lemma fetch_frame:
  "fetch c s = (r, s') \<Longrightarrow>
     calls s' = calls s @ [c] \<and> API_KEY s' = API_KEY s \<and> set (net s') \<subseteq> set (net s) \<and>
     (\<forall>j. r = Http_ok j \<longrightarrow> Http_ok j \<in> set (net s))"
  by (auto simp: fetch_def split: list.splits)

lemma sleep_frame [simp]:
  "net (sleep ms s) = net s" "calls (sleep ms s) = calls s" "API_KEY (sleep ms s) = API_KEY s"
  by (simp_all add: sleep_def)

lemma checkHashReport_frame:
  assumes "checkHashReport s h = (out, s')"
  shows "API_KEY s' = API_KEY s \<and> set (net s') \<subseteq> set (net s) \<and>
         (calls s' = calls s \<or> calls s' = calls s @ [Lookup h]) \<and>
         (dailyRequestCount s < 500 \<longrightarrow> calls s' = calls s @ [Lookup h]) \<and>
         (\<forall>j. out = Some j \<longrightarrow> Http_ok j \<in> set (net s) \<and> response_code j = 1)"
proof -
  obtain r s1 where r: "rateLimitCheck s = (r, s1)" by (cases "rateLimitCheck s")
  obtain f s2 where f: "fetch (Lookup h) s1 = (f, s2)" by (cases "fetch (Lookup h) s1")
  show ?thesis
  proof (cases r)
    case (Inl e)
    with assms r have "s' = s1" "out = None" by (auto simp: checkHashReport_def)
    moreover have "\<not> dailyRequestCount s < 500"
      using rateLimitCheck_ok[of s] r Inl by auto
    ultimately show ?thesis using rateLimitCheck_frame[OF r] by auto
  next
    case (Inr u)
    with assms r f have "s' = s2" "\<forall>j. out = Some j \<longrightarrow> f = Http_ok j \<and> response_code j = 1"
      by (auto simp: checkHashReport_def split: fetch_reply.splits if_splits)
    then show ?thesis using rateLimitCheck_frame[OF r] fetch_frame[OF f] by auto
  qed
qed

lemma uploadFileForScan_frame:
  assumes "uploadFileForScan s buf fn = (out, s')"
  shows "API_KEY s' = API_KEY s \<and> set (net s') \<subseteq> set (net s) \<and>
         (calls s' = calls s \<or> calls s' = calls s @ [Submit fn buf])"
proof -
  obtain r s1 where r: "rateLimitCheck s = (r, s1)" by (cases "rateLimitCheck s")
  obtain f s2 where f: "fetch (Submit fn buf) s1 = (f, s2)" by (cases "fetch (Submit fn buf) s1")
  from assms r f have "s' = s1 \<or> s' = s2"
    by (auto simp: uploadFileForScan_def uploadFileForScan_try_def
        split: sum.splits fetch_reply.splits if_splits)
  then show ?thesis using rateLimitCheck_frame[OF r] fetch_frame[OF f] by auto
qed

lemma report_attempt_frame:
  assumes "report_attempt res s = (out, s')"
  shows "API_KEY s' = API_KEY s \<and> set (net s') \<subseteq> set (net s) \<and>
         (calls s' = calls s \<or> calls s' = calls s @ [Report res]) \<and>
         (\<forall>j. out = Completed j \<longrightarrow> Http_ok j \<in> set (net s) \<and> response_code j = 1)"
proof -
  obtain r s1 where r: "rateLimitCheck s = (r, s1)" by (cases "rateLimitCheck s")
  obtain f s2 where f: "fetch (Report res) s1 = (f, s2)" by (cases "fetch (Report res) s1")
  from assms r f have "(s' = s1 \<and> (\<forall>j. out \<noteq> Completed j)) \<or>
      (s' = s2 \<and> (\<forall>j. out = Completed j \<longrightarrow> f = Http_ok j \<and> response_code j = 1))"
    by (auto simp: report_attempt_def split: sum.splits fetch_reply.splits if_splits)
  then show ?thesis using rateLimitCheck_frame[OF r] fetch_frame[OF f] by auto
qed

lemma loop_frame_refl: "(\<forall>j. out \<noteq> Inr j) \<Longrightarrow> loop_frame res s out s"
  unfolding loop_frame_def by (auto intro: exI[of _ 0])

lemma calls_extend:
  assumes "calls s1 = calls s \<or> calls s1 = calls s @ [Report res]"
    and "calls s' = calls s1 @ replicate k (Report res)"
  shows "\<exists>k'. calls s' = calls s @ replicate k' (Report res)"
proof (rule disjE[OF assms(1)])
  assume "calls s1 = calls s"
  with assms(2) have "calls s' = calls s @ replicate k (Report res)" by simp
  then show ?thesis ..
next
  assume "calls s1 = calls s @ [Report res]"
  with assms(2) have "calls s' = calls s @ replicate (Suc k) (Report res)" by simp
  then show ?thesis ..
qed

lemma loop_frame_step:
  assumes a: "report_attempt res s = (o1, s1)"
    and b: "loop_frame res (sleep ms s1) out s'"
  shows "loop_frame res s out s'"
proof -
  note f = report_attempt_frame[OF a]
  from b obtain k where k: "calls s' = calls s1 @ replicate k (Report res)"
    unfolding loop_frame_def by auto
  from f have c: "calls s1 = calls s \<or> calls s1 = calls s @ [Report res]" by simp
  have 1: "\<exists>k'. calls s' = calls s @ replicate k' (Report res)"
    by (rule calls_extend[OF c k])
  have 2: "API_KEY s' = API_KEY s" using f b unfolding loop_frame_def by simp
  have 3: "set (net s') \<subseteq> set (net s)" using f b unfolding loop_frame_def by auto
  have 4: "\<forall>j. out = Inr j \<longrightarrow> Http_ok j \<in> set (net s) \<and> response_code j = 1"
    using f b unfolding loop_frame_def by auto
  show ?thesis unfolding loop_frame_def using 1 2 3 4 by blast
qed

lemma loop_frame_stop:
  assumes a: "report_attempt res s = (o1, s1)"
    and b: "\<forall>j. out = Inr j \<longrightarrow> o1 = Completed j"
  shows "loop_frame res s out s1"
proof -
  note f = report_attempt_frame[OF a]
  from f have c: "calls s1 = calls s \<or> calls s1 = calls s @ [Report res]" by simp
  have "calls s1 = calls s1 @ replicate 0 (Report res)" by simp
  from calls_extend[OF c this]
  have 1: "\<exists>k'. calls s1 = calls s @ replicate k' (Report res)" .
  have 4: "\<forall>j. out = Inr j \<longrightarrow> Http_ok j \<in> set (net s) \<and> response_code j = 1"
    using f b by blast
  show ?thesis unfolding loop_frame_def using 1 4 f by blast
qed

lemma loop_done:
  "\<not> r < m \<Longrightarrow> getScanReport_loop m r res s = (Inl ''Maximo numero de intentos alcanzado'', s)"
  by (subst getScanReport_loop.simps) simp

lemma loop_completed:
  "r < m \<Longrightarrow> report_attempt res s = (Completed j, s1) \<Longrightarrow>
   getScanReport_loop m r res s = (Inr j, s1)"
  by (subst getScanReport_loop.simps) simp

lemma loop_in_progress_last:
  "r < m \<Longrightarrow> report_attempt res s = (In_progress, s1) \<Longrightarrow> m \<le> r + 1 \<Longrightarrow>
   getScanReport_loop m r res s =
     (Inl (''Error al obtener reporte de escaneo: '' @
           ''Timeout esperando resultados del escaneo''), s1)"
  by (subst getScanReport_loop.simps) simp

lemma loop_in_progress_more:
  "r < m \<Longrightarrow> report_attempt res s = (In_progress, s1) \<Longrightarrow> \<not> m \<le> r + 1 \<Longrightarrow>
   getScanReport_loop m r res s =
     getScanReport_loop m (r + 1) res (sleep (min (10000 + int (r + 1) * 2000) 30000) s1)"
  by (subst getScanReport_loop.simps) simp

lemma loop_threw_last:
  "r < m \<Longrightarrow> report_attempt res s = (Threw msg, s1) \<Longrightarrow> m - 1 \<le> r \<Longrightarrow>
   getScanReport_loop m r res s = (Inl (''Error al obtener reporte de escaneo: '' @ msg), s1)"
  by (subst getScanReport_loop.simps) (simp add: report_catch_def)

lemma loop_threw_more:
  "r < m \<Longrightarrow> report_attempt res s = (Threw msg, s1) \<Longrightarrow> \<not> m - 1 \<le> r \<Longrightarrow>
   getScanReport_loop m r res s = getScanReport_loop m (r + 1) res (sleep 5000 s1)"
  by (subst getScanReport_loop.simps) (simp add: report_catch_def)

lemma getScanReport_loop_frame:
  "getScanReport_loop m r res s = (out, s') \<Longrightarrow> loop_frame res s out s'"
proof (induction m r res s arbitrary: out s' rule: getScanReport_loop.induct)
  case (1 m r res s)
  obtain o1 s1 where a: "report_attempt res s = (o1, s1)" by (cases "report_attempt res s")
  show ?case
  proof (cases "r < m")
    case False
    from "1.prems" loop_done[OF False, of res s]
    have "out = Inl ''Maximo numero de intentos alcanzado''" "s' = s" by simp_all
    then show ?thesis by (simp add: loop_frame_refl)
  next
    case True
    show ?thesis
    proof (cases o1)
      case (Completed j)
      from "1.prems" loop_completed[OF True a[unfolded Completed]]
      have "out = Inr j" "s' = s1" by simp_all
      with a Completed show ?thesis by (simp add: loop_frame_stop)
    next
      case In_progress
      show ?thesis
      proof (cases "m \<le> r + 1")
        case le: True
        from "1.prems" loop_in_progress_last[OF True a[unfolded In_progress] le]
        have "\<forall>j. out \<noteq> Inr j" "s' = s1" by auto
        with a show ?thesis by (simp add: loop_frame_stop)
      next
        case nle: False
        from "1.prems" loop_in_progress_more[OF True a[unfolded In_progress] nle]
        have "getScanReport_loop m (r + 1) res
             (sleep (min (10000 + int (r + 1) * 2000) 30000) s1) = (out, s')"
          by simp
        then have "loop_frame res (sleep (min (10000 + int (r + 1) * 2000) 30000) s1) out s'"
          using "1.IH"(1) True a In_progress nle by simp
        with a show ?thesis by (rule loop_frame_step)
      qed
    next
      case (Threw msg)
      show ?thesis
      proof (cases "m - 1 \<le> r")
        case le: True
        from "1.prems" loop_threw_last[OF True a[unfolded Threw] le]
        have "\<forall>j. out \<noteq> Inr j" "s' = s1" by auto
        with a show ?thesis by (simp add: loop_frame_stop)
      next
        case nle: False
        then have rc: "report_catch m r msg s1 = None" by (simp add: report_catch_def)
        from "1.prems" loop_threw_more[OF True a[unfolded Threw] nle]
        have "getScanReport_loop m (r + 1) res (sleep 5000 s1) = (out, s')" by simp
        then have "loop_frame res (sleep 5000 s1) out s'"
          using "1.IH"(2) True a Threw rc by simp
        with a show ?thesis by (rule loop_frame_step)
      qed
    qed
  qed
qed

lemma getScanReport_frame:
  "getScanReport sid s = (out, s') \<Longrightarrow> loop_frame sid s out s'"
  unfolding getScanReport_def by (rule getScanReport_loop_frame)

lemma scan_try_frame:
  assumes "scanWithVirusTotal_try sha s buf fn = (out, s')"
  shows "API_KEY s' = API_KEY s \<and> (API_KEY s = [] \<longrightarrow> s' = s) \<and>
         (\<exists>new. calls s' = calls s @ new \<and> lookup_first (sha buf) fn buf new) \<and>
         (\<forall>v. out = Inr v \<and> \<not> isSafe v \<longrightarrow>
            (\<exists>j. Http_ok j \<in> set (net s) \<and> response_code j = 1 \<and> v = verdict_of_report j))"
proof (cases "API_KEY s = [] \<or> dailyRequestCount s \<ge> 500")
  case True
  with assms have "s' = s" "out = Inr no_api_key_result \<or> out = Inr daily_limit_result"
    by (auto simp: scanWithVirusTotal_try_def split: if_splits)
  then show ?thesis
    by (auto simp: lookup_first_def no_api_key_result_def daily_limit_result_def)
next
  case False
  obtain ex s1 where c: "checkHashReport s (sha buf) = (ex, s1)"
    by (cases "checkHashReport s (sha buf)")
  note cf = checkHashReport_frame[OF c]
  from False cf have c1: "calls s1 = calls s @ [Lookup (sha buf)]" by simp
  show ?thesis
  proof (cases ex)
    case (Some j)
    with assms False c have "out = Inr (verdict_of_report j)" "s' = s1"
      by (simp_all add: scanWithVirusTotal_try_def)
    with cf c1 Some False show ?thesis by (auto simp: lookup_first_def)
  next
    case None
    obtain u s2 where u: "uploadFileForScan s1 buf fn = (u, s2)"
      by (cases "uploadFileForScan s1 buf fn")
    note uf = uploadFileForScan_frame[OF u]
    show ?thesis
    proof (cases u)
      case (Inl e)
      with assms False c None u have "out = Inl e" "s' = s2"
        by (simp_all add: scanWithVirusTotal_try_def)
      from uf c1 have "calls s2 = calls s @ [Lookup (sha buf)] \<or>
          calls s2 = calls s @ Lookup (sha buf) # Submit fn buf # replicate 0 (Report [])"
        by auto
      then have "\<exists>new. calls s2 = calls s @ new \<and> lookup_first (sha buf) fn buf new"
        unfolding lookup_first_def by blast
      with \<open>out = Inl e\<close> \<open>s' = s2\<close> cf uf False show ?thesis by simp
    next
      case (Inr sid)
      obtain g s3 where g: "getScanReport sid s2 = (g, s3)" by (cases "getScanReport sid s2")
      note gf = getScanReport_frame[OF g, unfolded loop_frame_def]
      from gf obtain k where k: "calls s3 = calls s2 @ replicate k (Report sid)" by blast
      have s2: "calls s2 = calls s1 @ [Submit fn buf]"
      proof -
        obtain r s1' where r: "rateLimitCheck s1 = (r, s1')" by (cases "rateLimitCheck s1")
        obtain f s2' where f: "fetch (Submit fn buf) s1' = (f, s2')"
          by (cases "fetch (Submit fn buf) s1'")
        from u Inr r f have "s2 = s2'"
          by (auto simp: uploadFileForScan_def uploadFileForScan_try_def
              split: sum.splits fetch_reply.splits if_splits)
        with rateLimitCheck_frame[OF r] fetch_frame[OF f] show ?thesis by simp
      qed
      from assms False c None u Inr g have o: "s' = s3"
        "out = (case g of Inl e \<Rightarrow> Inl e | Inr report \<Rightarrow> Inr (verdict_of_report report))"
        by (auto simp add: scanWithVirusTotal_try_def split: sum.splits)
      have calls: "calls s' = calls s @ Lookup (sha buf) # Submit fn buf # replicate k (Report sid)"
        using o(1) k s2 c1 by simp
      have key: "API_KEY s' = API_KEY s" using o(1) gf uf cf by simp
      have rep: "\<forall>v. out = Inr v \<and> \<not> isSafe v \<longrightarrow>
            (\<exists>j. Http_ok j \<in> set (net s) \<and> response_code j = 1 \<and> v = verdict_of_report j)"
      proof (intro allI impI)
        fix v assume v: "out = Inr v \<and> \<not> isSafe v"
        with o(2) obtain j where j: "g = Inr j" "v = verdict_of_report j"
          by (cases g) auto
        with gf have "Http_ok j \<in> set (net s2)" "response_code j = 1" by auto
        with uf cf have "Http_ok j \<in> set (net s)" by blast
        with j \<open>response_code j = 1\<close>
        show "\<exists>j. Http_ok j \<in> set (net s) \<and> response_code j = 1 \<and> v = verdict_of_report j"
          by blast
      qed
      from calls have "\<exists>new. calls s' = calls s @ new \<and> lookup_first (sha buf) fn buf new"
        unfolding lookup_first_def by blast
      with key rep False show ?thesis by blast
    qed
  qed
qed

lemmas av_defs = scanWithVirusTotal_def scanWithVirusTotal_try_def checkHashReport_def
  uploadFileForScan_def uploadFileForScan_try_def getScanReport_def report_attempt_def
  report_catch_def rateLimitCheck_def fetch_def sleep_def toDateString_def
  RATE_LIMIT_DELAY_def MAX_FILE_SIZE_def verdict_of_report_def Let_def

lemmas demo_defs = demo_hash_def service_def reply_json_def engines_labelled_def
  engines_unlabelled_def


lemma scan_frame:
  assumes "scanWithVirusTotal sha s buf fn = (v, s')"
  shows "\<exists>out. scanWithVirusTotal_try sha s buf fn = (out, s') \<and>
           (case out of Inl e \<Rightarrow> v = error_result e | Inr w \<Rightarrow> v = w)"
  using assms by (auto simp: scanWithVirusTotal_def split: prod.splits sum.splits)

lemma scanWithVirusTotal_preserves_inv:
  assumes "scanWithVirusTotal sha s buf fn = (v, s')" "service_inv s"
  shows "service_inv s'"
proof -
  from scan_frame[OF assms(1)] obtain out where
    "scanWithVirusTotal_try sha s buf fn = (out, s')" by blast
  from scan_try_frame[OF this] assms(2) show ?thesis
    by (auto simp: service_inv_def)
qed


lemma submit_count_append [simp]:
  "submit_count (xs @ ys) = submit_count xs + submit_count ys"
  by (simp add: submit_count_def)





subsection \<open>Normalising a report\<close>

text \<open>
  Claim C9, as amended. For every completed report the verdict is safe exactly when
  the report's count of positives is zero, and the threats are the entries
  \<open>engine: result\<close> of exactly those engines that flagged the content and gave a
  non-empty result string. (An engine that flagged the content without a result string
  gets no entry, which is why the claim as stated fails.)
\<close>

theorem verdict_of_report_normalised:
  "isSafe (verdict_of_report r) = (positives r = 0) \<and>
   set (threats (verdict_of_report r)) =
     {n @ '': '' @ t | n e t. (n, e) \<in> set (scans r) \<and> detected e \<and> result e = Some t \<and> t \<noteq> []}"
  by (simp add: verdict_of_report_def set_processEngineResults)

theorem verdict_of_report_normalised_witness:
  "\<not> isSafe (verdict_of_report (reply_json 1 1 engines_labelled)) \<and>
   set (threats (verdict_of_report (reply_json 1 1 engines_labelled))) =
     {''EngineA: Trojan.Generic''}"
proof -
  have "threats (verdict_of_report (reply_json 1 1 engines_labelled)) =
      [''EngineA: Trojan.Generic'']"
    by (simp add: av_defs demo_defs)
  moreover have "positives (reply_json 1 1 engines_labelled) = 1" by (simp add: demo_defs)
  ultimately show ?thesis
    using verdict_of_report_normalised[of "reply_json 1 1 engines_labelled"] by simp
qed

text \<open>The claim as stated fails: engine \<open>EngineA\<close> flagged the content, the report
  counts one positive, and the list of threats is empty.\<close>

theorem verdict_threats_counterexample:
  "(''EngineA'', \<lparr>detected = True, result = None\<rparr>) \<in> set (scans (reply_json 1 1 engines_unlabelled)) \<and>
   threats (verdict_of_report (reply_json 1 1 engines_unlabelled)) = []"
  by (simp add: av_defs demo_defs)

subsection \<open>The daily quota\<close>

text \<open>The service starts with its counters at zero, and every scan keeps the
  invariant \<open>service_inv\<close> (lemma \<open>scanWithVirusTotal_preserves_inv\<close>): the states in
  which the counter has reached 500 are states of a service with a key.\<close>

lemma service_inv_initial: "service_inv (service key 0 replies)"
  by (simp add: service_inv_def service_def)

text \<open>
  Claim C4. Once the daily counter has reached 500, a scan request returns the
  verdict \<open>daily-limit-reached\<close> with \<open>isSafe = true\<close> and no threats; the body of
  the \<open>try\<close> returns normally (nothing is thrown), no request is sent and the state
  of the service is unchanged.
\<close>

theorem scan_after_daily_limit:
  assumes "service_inv s" and "dailyRequestCount s \<ge> 500"
  shows "scanWithVirusTotal_try sha s buf fn = (Inr daily_limit_result, s) \<and>
         scanWithVirusTotal sha s buf fn = (daily_limit_result, s) \<and>
         isSafe daily_limit_result \<and> scanId daily_limit_result = ''daily-limit-reached'' \<and>
         threats daily_limit_result = []"
  using assms
  by (auto simp: service_inv_def scanWithVirusTotal_def scanWithVirusTotal_try_def
      daily_limit_result_def)

theorem scan_after_daily_limit_witness:
  "service_inv (service ''key'' 500 []) \<and> dailyRequestCount (service ''key'' 500 []) \<ge> 500 \<and>
   scanWithVirusTotal demo_hash (service ''key'' 500 []) [1, 2, 3] ''a.zip'' =
     (daily_limit_result, service ''key'' 500 []) \<and>
   isSafe (fst (scanWithVirusTotal demo_hash (service ''key'' 500 []) [1, 2, 3] ''a.zip''))"
proof -
  have a: "service_inv (service ''key'' 500 [])" by (simp add: service_inv_def service_def)
  have b: "dailyRequestCount (service ''key'' 500 []) \<ge> 500" by (simp add: service_def)
  from scan_after_daily_limit[OF a b, of demo_hash "[1, 2, 3]" "''a.zip''"] a b
  show ?thesis by simp
qed

subsection \<open>Failing open\<close>

text \<open>
  Claim C10. \<open>scanWithVirusTotal\<close> returns a verdict for every input (the polling
  loop terminates, every exception of the body is caught). The verdict is unsafe only
  if it is the verdict of a reply with response code 1 and a positive count of
  detections. Without an API key the verdict is \<open>no-api-key\<close>, safe, and the state is
  unchanged, so nothing was sent. Whatever the body throws becomes the verdict
  \<open>error\<close>, safe; in particular an upload that throws and a polling that throws.
\<close>

theorem scanWithVirusTotal_fail_open:
  "(\<not> isSafe (fst (scanWithVirusTotal sha s buf fn)) \<longrightarrow>
      (\<exists>j. Http_ok j \<in> set (net s) \<and> response_code j = 1 \<and> 0 < positives j \<and>
           fst (scanWithVirusTotal sha s buf fn) = verdict_of_report j)) \<and>
   (API_KEY s = [] \<longrightarrow> scanWithVirusTotal sha s buf fn = (no_api_key_result, s) \<and>
      isSafe no_api_key_result \<and> scanId no_api_key_result = ''no-api-key'') \<and>
   (\<forall>e s1. scanWithVirusTotal_try sha s buf fn = (Inl e, s1) \<longrightarrow>
      scanWithVirusTotal sha s buf fn = (error_result e, s1) \<and>
      isSafe (error_result e) \<and> scanId (error_result e) = ''error'') \<and>
   (\<forall>s1 s2 e. API_KEY s \<noteq> [] \<and> dailyRequestCount s < 500 \<and>
      checkHashReport s (sha buf) = (None, s1) \<and> uploadFileForScan s1 buf fn = (Inl e, s2) \<longrightarrow>
      scanWithVirusTotal sha s buf fn = (error_result e, s2)) \<and>
   (\<forall>s1 s2 s3 sid e. API_KEY s \<noteq> [] \<and> dailyRequestCount s < 500 \<and>
      checkHashReport s (sha buf) = (None, s1) \<and> uploadFileForScan s1 buf fn = (Inr sid, s2) \<and>
      getScanReport sid s2 = (Inl e, s3) \<longrightarrow>
      scanWithVirusTotal sha s buf fn = (error_result e, s3))"
proof (intro conjI)
  obtain v s' where vs: "scanWithVirusTotal sha s buf fn = (v, s')"
    by (cases "scanWithVirusTotal sha s buf fn")
  from scan_frame[OF vs] obtain out where out: "scanWithVirusTotal_try sha s buf fn = (out, s')"
    "case out of Inl e \<Rightarrow> v = error_result e | Inr w \<Rightarrow> v = w" by blast
  show "\<not> isSafe (fst (scanWithVirusTotal sha s buf fn)) \<longrightarrow>
      (\<exists>j. Http_ok j \<in> set (net s) \<and> response_code j = 1 \<and> 0 < positives j \<and>
           fst (scanWithVirusTotal sha s buf fn) = verdict_of_report j)"
  proof
    assume "\<not> isSafe (fst (scanWithVirusTotal sha s buf fn))"
    with vs have ns: "\<not> isSafe v" by simp
    with out(2) have "out = Inr v" by (cases out) (auto simp: error_result_def)
    with scan_try_frame[OF out(1)] ns obtain j where
      j: "Http_ok j \<in> set (net s)" "response_code j = 1" "v = verdict_of_report j" by blast
    with ns have "0 < positives j" by (simp add: verdict_of_report_def)
    with j vs show "\<exists>j. Http_ok j \<in> set (net s) \<and> response_code j = 1 \<and> 0 < positives j \<and>
           fst (scanWithVirusTotal sha s buf fn) = verdict_of_report j" by auto
  qed
qed (auto simp: scanWithVirusTotal_def scanWithVirusTotal_try_def no_api_key_result_def
    error_result_def)

theorem scanWithVirusTotal_fail_open_witness:
  "scanWithVirusTotal demo_hash (service [] 0 []) [1, 2, 3] ''a.zip'' =
     (no_api_key_result, service [] 0 []) \<and>
   \<not> isSafe (fst (scanWithVirusTotal demo_hash
        (service ''key'' 0 [Http_ok (reply_json 1 1 engines_labelled)]) [1, 2, 3] ''a.zip'')) \<and>
   (\<exists>j. Http_ok j \<in> set (net (service ''key'' 0 [Http_ok (reply_json 1 1 engines_labelled)])) \<and>
        response_code j = 1 \<and> 0 < positives j \<and>
        fst (scanWithVirusTotal demo_hash
          (service ''key'' 0 [Http_ok (reply_json 1 1 engines_labelled)]) [1, 2, 3] ''a.zip'') =
          verdict_of_report j) \<and>
   fst (scanWithVirusTotal demo_hash (service ''key'' 0 []) [1, 2, 3] ''a.zip'') =
     error_result ''Error al subir archivo para escaneo: network unreachable'' \<and>
   fst (scanWithVirusTotal demo_hash
     (service ''key'' 0 [Http_ok (reply_json 0 0 []), Http_ok (reply_json 1 0 [])])
     [1, 2, 3] ''a.zip'') =
     error_result ''Error al obtener reporte de escaneo: network unreachable''"
proof (intro conjI)
  have "API_KEY (service [] 0 []) = []" by (simp add: service_def)
  with scanWithVirusTotal_fail_open[of demo_hash "service [] 0 []" "[1, 2, 3]" "''a.zip''"]
  show "scanWithVirusTotal demo_hash (service [] 0 []) [1, 2, 3] ''a.zip'' =
     (no_api_key_result, service [] 0 [])" by blast
next
  show unsafe: "\<not> isSafe (fst (scanWithVirusTotal demo_hash
        (service ''key'' 0 [Http_ok (reply_json 1 1 engines_labelled)]) [1, 2, 3] ''a.zip''))"
    by (simp add: av_defs demo_defs)
  with scanWithVirusTotal_fail_open[of demo_hash
      "service ''key'' 0 [Http_ok (reply_json 1 1 engines_labelled)]" "[1, 2, 3]" "''a.zip''"]
  show "\<exists>j. Http_ok j \<in> set (net (service ''key'' 0 [Http_ok (reply_json 1 1 engines_labelled)])) \<and>
        response_code j = 1 \<and> 0 < positives j \<and>
        fst (scanWithVirusTotal demo_hash
          (service ''key'' 0 [Http_ok (reply_json 1 1 engines_labelled)]) [1, 2, 3] ''a.zip'') =
          verdict_of_report j" by blast
next
  have "\<exists>s1 s2. API_KEY (service ''key'' 0 []) \<noteq> [] \<and>
      dailyRequestCount (service ''key'' 0 []) < 500 \<and>
      checkHashReport (service ''key'' 0 []) (demo_hash [1, 2, 3]) = (None, s1) \<and>
      uploadFileForScan s1 [1, 2, 3] ''a.zip'' =
        (Inl ''Error al subir archivo para escaneo: network unreachable'', s2)"
    by (simp add: av_defs demo_defs)
  with scanWithVirusTotal_fail_open[of demo_hash "service ''key'' 0 []" "[1, 2, 3]" "''a.zip''"]
  obtain s2 where "scanWithVirusTotal demo_hash (service ''key'' 0 []) [1, 2, 3] ''a.zip'' =
     (error_result ''Error al subir archivo para escaneo: network unreachable'', s2)"
    by blast
  then show "fst (scanWithVirusTotal demo_hash (service ''key'' 0 []) [1, 2, 3] ''a.zip'') =
     error_result ''Error al subir archivo para escaneo: network unreachable''" by simp
next
  let ?s = "service ''key'' 0 [Http_ok (reply_json 0 0 []), Http_ok (reply_json 1 0 [])]"
  have "\<exists>s1 s2 s3 sid. API_KEY ?s \<noteq> [] \<and> dailyRequestCount ?s < 500 \<and>
      checkHashReport ?s (demo_hash [1, 2, 3]) = (None, s1) \<and>
      uploadFileForScan s1 [1, 2, 3] ''a.zip'' = (Inr sid, s2) \<and>
      getScanReport sid s2 =
        (Inl ''Error al obtener reporte de escaneo: network unreachable'', s3)"
    by (simp add: av_defs demo_defs getScanReport_loop.simps)
  with scanWithVirusTotal_fail_open[of demo_hash ?s "[1, 2, 3]" "''a.zip''"]
  obtain s3 where "scanWithVirusTotal demo_hash ?s [1, 2, 3] ''a.zip'' =
     (error_result ''Error al obtener reporte de escaneo: network unreachable'', s3)"
    by blast
  then show "fst (scanWithVirusTotal demo_hash ?s [1, 2, 3] ''a.zip'') =
     error_result ''Error al obtener reporte de escaneo: network unreachable''" by simp
qed

subsection \<open>The hash lookup and the upload\<close>




section \<open>Properties of the admin controller\<close>

subsection \<open>Cloudinary: logs, oracles and assets\<close>

lemma same_oracles_refl [simp]: "same_oracles c c"
  by (simp add: same_oracles_def)

lemma same_oracles_trans: "same_oracles c c1 \<Longrightarrow> same_oracles c1 c2 \<Longrightarrow> same_oracles c c2"
  by (simp add: same_oracles_def)

lemma same_oracles_log_event [simp]: "same_oracles c (log_event e c')  = same_oracles c c'"
  by (simp add: same_oracles_def log_event_def)

lemma destroy_frame:
  assumes "destroy i rt c = (r, c')"
  shows "cloud_log c' = cloud_log c \<and> same_oracles c c' \<and>
         (case destroy_fault c i rt of
            None \<Rightarrow> (r = Destroy_ok \<or> r = Destroy_not_found) \<and> assets c' = assets c - {(i, rt)}
          | Some (Rejects msg) \<Rightarrow> r = Destroy_throws msg \<and> assets c' = assets c
          | Some (Other_result x) \<Rightarrow> r = Destroy_other x \<and> assets c' = assets c)"
  using assms
  by (auto simp: destroy_def same_oracles_def split: option.splits fault.splits if_splits)

text \<open>The assets that a run of deletions removes: each public id whose request is
  served, under the resource type that \<open>deleteFromCloudinary\<close> asks for.\<close>

lemma deleteFromCloudinary_frame:
  assumes "deleteFromCloudinary i c = (out, c')"
  shows "cloud_log c' = cloud_log c @ [Ev_delete i (delete_served c i)] \<and> same_oracles c c' \<and>
         assets c' =
           (if delete_served c i then assets c - {(i, delete_resource_type i)} else assets c)"
proof -
  obtain r c1 where d: "destroy i (delete_resource_type i) c = (r, c1)"
    by (cases "destroy i (delete_resource_type i) c")
  note f = destroy_frame[OF d]
  from assms d have "c' = log_event (Ev_delete i (delete_served c i)) c1"
    using f
    by (auto simp: deleteFromCloudinary_def deleteFromCloudinary_try_def delete_served_def
        split: destroy_reply.splits option.splits fault.splits)
  with f show ?thesis
    by (auto simp: log_event_def delete_served_def same_oracles_def
        split: option.splits fault.splits)
qed

lemma delete_served_cong: "same_oracles c c' \<Longrightarrow> delete_served c' = delete_served c"
  by (rule ext) (simp add: delete_served_def same_oracles_def)

lemma delete_all_settled_frame:
  "cloud_log (delete_all_settled ids c) =
     cloud_log c @ map (\<lambda>i. Ev_delete i (delete_served c i)) ids \<and>
   same_oracles c (delete_all_settled ids c) \<and>
   assets (delete_all_settled ids c) =
     assets c - {(i, delete_resource_type i) |i. i \<in> set ids \<and> delete_served c i}"
proof (induction ids arbitrary: c)
  case Nil
  then show ?case by simp
next
  case (Cons i ids)
  obtain out c1 where d: "deleteFromCloudinary i c = (out, c1)"
    by (cases "deleteFromCloudinary i c")
  note f = deleteFromCloudinary_frame[OF d]
  from f have so: "same_oracles c c1" by simp
  note ih = Cons.IH[of c1]
  have 1: "cloud_log (delete_all_settled (i # ids) c) =
      cloud_log c @ map (\<lambda>i. Ev_delete i (delete_served c i)) (i # ids)"
    using d f ih by (simp add: delete_served_cong[OF so])
  have 2: "same_oracles c (delete_all_settled (i # ids) c)"
    using d ih so by (auto intro: same_oracles_trans)
  have 3: "assets (delete_all_settled (i # ids) c) =
      assets c - {(j, delete_resource_type j) |j. j \<in> set (i # ids) \<and> delete_served c j}"
    using d f ih by (auto simp: delete_served_cong[OF so])
  from 1 2 3 show ?case by blast
qed

lemma moveCloudinaryFiles_frame:
  assumes "moveCloudinaryFiles i f c = (out, c')"
  shows "cloud_log c' = cloud_log c @ [Ev_move i f (case out of Inl e \<Rightarrow> None | Inr n \<Rightarrow> Some n)] \<and>
         same_oracles c c'"
proof -
  obtain o1 c1 where t: "moveCloudinaryFiles_try i f c = (o1, c1)"
    by (cases "moveCloudinaryFiles_try i f c")
  have "cloud_log c1 = cloud_log c \<and> same_oracles c c1"
    using t
    by (auto simp: moveCloudinaryFiles_try_def Let_def destroy_def same_oracles_def
        split: sum.splits option.splits destroy_reply.splits fault.splits if_splits)
  with assms t show ?thesis
    by (auto simp: moveCloudinaryFiles_def log_event_def same_oracles_def split: sum.splits)
qed

lemma moves_only_refl: "moves_only pid c c False"
  by (simp add: moves_only_def)

lemma moves_only_move:
  assumes "moveCloudinaryFiles i (project_folder pid k) c = (out, c')"
    and "k \<in> {''icons'', ''images'', ''code'', ''docs''}"
  shows "moves_only pid c c' (isl out)"
proof -
  note f = moveCloudinaryFiles_frame[OF assms(1)]
  let ?e = "Ev_move i (project_folder pid k) (case out of Inl e \<Rightarrow> None | Inr n \<Rightarrow> Some n)"
  have "move_into pid ?e" using assms(2) by auto
  moreover have "move_failed ?e \<longleftrightarrow> isl out" by (cases out) auto
  ultimately show ?thesis using f unfolding moves_only_def
    by (intro conjI exI[of _ "[?e]"]) auto
qed

lemma save_frame:
  assumes "save pid p w = (r, w1)"
  shows "storage w1 = storage w \<and> now w1 = now w \<and> notify_reply w1 = notify_reply w \<and>
         (case r of Inl msg \<Rightarrow> projects w1 = projects w \<and> save_reply w pid p = Some msg
                  | Inr u \<Rightarrow> projects w1 = (projects w)(pid \<mapsto> p) \<and> save_reply w pid p = None)"
  using assms by (auto simp: save_def split: option.splits)

lemmas cloud_defs = moveCloudinaryFiles_def moveCloudinaryFiles_try_def move_resource_type_def
  deleteFromCloudinary_def
  deleteFromCloudinary_try_def delete_resource_type_def destroy_def log_event_def
  getFileInfo_def last_segment_def before_dot_def

lemmas project_defs = applyDraft_def clearDraft_def code_publicId_def doc_publicId_def
  the_draft_def no_draft_def nested_files_def no_files_def nested_file_def no_file_def id_in_def truthy_id_def url_at_def url_of_info_def save_def
  set_code_publicId_def set_doc_publicId_def set_code_url_def set_doc_url_def set_icon_url_def
  project_folder_def respond_after_save_def


lemmas world_defs = world_of_def cloud_ok_def cloud_missing_def
  stored_file_def staged_project_def live_project_def demo_draft_def drafted_project_def
  drafted_assets_def


lemma publicId_None [simp]: "code_publicId None = None" "doc_publicId None = None"
  by (simp_all add: code_publicId_def doc_publicId_def)

lemma truthy_id_None [simp]: "truthy_id None = None"
  by (simp add: truthy_id_def)

lemma set_reject_filesToDelete: "set (reject_filesToDelete p d) = draft_only_assets p d"
proof (cases "d_files d")
  case None
  then show ?thesis
    by (auto simp: reject_filesToDelete_def draft_only_assets_def split: option.splits if_splits)
next
  case (Some df)
  then show ?thesis
    by (auto simp: reject_filesToDelete_def draft_only_assets_def split: option.splits if_splits)
qed


lemmas reject_defs = rejectDraft_def reject_filesToDelete_def usable_feedback_def trim_def
  is_space_def utf16_of_def

lemma moves_only_append:
  assumes "moves_only pid c c1 f1" "moves_only pid c1 c2 f2"
  shows "moves_only pid c c2 (f1 \<or> f2)"
proof -
  from assms(1) obtain ms1 where 1: "cloud_log c1 = cloud_log c @ ms1"
    "\<forall>e\<in>set ms1. move_into pid e" "(\<exists>e\<in>set ms1. move_failed e) \<longleftrightarrow> f1" "same_oracles c c1"
    unfolding moves_only_def by blast
  from assms(2) obtain ms2 where 2: "cloud_log c2 = cloud_log c1 @ ms2"
    "\<forall>e\<in>set ms2. move_into pid e" "(\<exists>e\<in>set ms2. move_failed e) \<longleftrightarrow> f2" "same_oracles c1 c2"
    unfolding moves_only_def by blast
  have "cloud_log c2 = cloud_log c @ (ms1 @ ms2)" using 1(1) 2(1) by simp
  moreover have "\<forall>e\<in>set (ms1 @ ms2). move_into pid e" using 1(2) 2(2) by auto
  moreover have "(\<exists>e\<in>set (ms1 @ ms2). move_failed e) \<longleftrightarrow> (f1 \<or> f2)" using 1(3) 2(3) by auto
  moreover have "same_oracles c c2" using 1(4) 2(4) by (rule same_oracles_trans)
  ultimately show ?thesis unfolding moves_only_def by blast
qed

lemma publish_frameI:
  "status p' = status p \<Longrightarrow> publishedAt p' = publishedAt p \<Longrightarrow> moves_only pid c c' failed
   \<Longrightarrow> publish_frame pid (p, fm, c) (p', fm', c')"
  unfolding publish_frame_def by auto

lemma publish_frameE:
  assumes "publish_frame pid (p, fm, c) (p', fm', c')"
  obtains failed where "status p' = status p" "publishedAt p' = publishedAt p"
    "moves_only pid c c' failed"
  using assms unfolding publish_frame_def by auto

lemma publish_frame_refl: "publish_frame pid st st"
proof -
  obtain p fm c where st: "st = (p, fm, c)" by (cases st)
  show ?thesis unfolding st by (rule publish_frameI[OF refl refl moves_only_refl])
qed

lemma publish_frame_trans:
  assumes "publish_frame pid st st1" "publish_frame pid st1 st2"
  shows "publish_frame pid st st2"
proof -
  obtain p fm c where st: "st = (p, fm, c)" by (cases st)
  obtain p1 fm1 c1 where st1: "st1 = (p1, fm1, c1)" by (cases st1)
  obtain p2 fm2 c2 where st2: "st2 = (p2, fm2, c2)" by (cases st2)
  from assms(1)[unfolded st st1] obtain f1 where
    1: "status p1 = status p" "publishedAt p1 = publishedAt p" "moves_only pid c c1 f1"
    by (rule publish_frameE)
  from assms(2)[unfolded st1 st2] obtain f2 where
    2: "status p2 = status p1" "publishedAt p2 = publishedAt p1" "moves_only pid c1 c2 f2"
    by (rule publish_frameE)
  show ?thesis unfolding st st2
    by (rule publish_frameI[OF _ _ moves_only_append[OF 1(3) 2(3)]]) (simp_all add: 1 2)
qed

lemma setters_keep_status [simp]:
  "status (set_icon_url i p) = status p" "publishedAt (set_icon_url i p) = publishedAt p"
  "status (set_code_url i p) = status p" "publishedAt (set_code_url i p) = publishedAt p"
  "status (set_doc_url i p) = status p" "publishedAt (set_doc_url i p) = publishedAt p"
  "status (set_code_publicId n p) = status p" "publishedAt (set_code_publicId n p) = publishedAt p"
  "status (set_doc_publicId n p) = status p" "publishedAt (set_doc_publicId n p) = publishedAt p"
  by (simp_all add: set_icon_url_def set_code_url_def set_doc_url_def set_code_publicId_def
      set_doc_publicId_def Let_def split: option.splits)

lemma publish_icon_frame: "publish_frame pid st (publish_icon pid st)"
proof -
  obtain p fm c where st: "st = (p, fm, c)" by (cases st)
  show ?thesis
  proof (cases "id_in (iconPublicId p) ''/temp/''")
    case None
    with st show ?thesis by (simp add: publish_icon_def publish_frame_refl)
  next
    case (Some i)
    obtain out c1 where m: "moveCloudinaryFiles i (project_folder pid ''icons'') c = (out, c1)"
      by (cases "moveCloudinaryFiles i (project_folder pid ''icons'') c")
    have mo: "moves_only pid c c1 (isl out)" by (rule moves_only_move[OF m]) simp
    show ?thesis
    proof (cases out)
      case (Inl e)
      with st Some m have "publish_icon pid st = (p, fm, c1)" by (simp add: publish_icon_def)
      then show ?thesis unfolding st by (simp add: publish_frameI[OF refl refl mo])
    next
      case (Inr n)
      with st Some m obtain p' where "publish_icon pid st = (p', True, c1)"
        "status p' = status p" "publishedAt p' = publishedAt p" by (simp add: publish_icon_def)
      then show ?thesis unfolding st by (simp add: publish_frameI[OF _ _ mo])
    qed
  qed
qed

lemma publish_code_frame: "publish_frame pid st (publish_code pid st)"
proof -
  obtain p fm c where st: "st = (p, fm, c)" by (cases st)
  show ?thesis
  proof (cases "id_in (code_publicId (files p)) ''/temp/''")
    case None
    with st show ?thesis by (simp add: publish_code_def publish_frame_refl)
  next
    case (Some i)
    obtain out c1 where m: "moveCloudinaryFiles i (project_folder pid ''code'') c = (out, c1)"
      by (cases "moveCloudinaryFiles i (project_folder pid ''code'') c")
    have mo: "moves_only pid c c1 (isl out)" by (rule moves_only_move[OF m]) simp
    show ?thesis
    proof (cases out)
      case (Inl e)
      with st Some m have "publish_code pid st = (p, fm, c1)" by (simp add: publish_code_def)
      then show ?thesis unfolding st by (simp add: publish_frameI[OF refl refl mo])
    next
      case (Inr n)
      with st Some m obtain p' where "publish_code pid st = (p', True, c1)"
        "status p' = status p" "publishedAt p' = publishedAt p" by (simp add: publish_code_def)
      then show ?thesis unfolding st by (simp add: publish_frameI[OF _ _ mo])
    qed
  qed
qed

lemma publish_doc_frame: "publish_frame pid st (publish_doc pid st)"
proof -
  obtain p fm c where st: "st = (p, fm, c)" by (cases st)
  show ?thesis
  proof (cases "id_in (doc_publicId (files p)) ''/temp/''")
    case None
    with st show ?thesis by (simp add: publish_doc_def publish_frame_refl)
  next
    case (Some i)
    obtain out c1 where m: "moveCloudinaryFiles i (project_folder pid ''docs'') c = (out, c1)"
      by (cases "moveCloudinaryFiles i (project_folder pid ''docs'') c")
    have mo: "moves_only pid c c1 (isl out)" by (rule moves_only_move[OF m]) simp
    show ?thesis
    proof (cases out)
      case (Inl e)
      with st Some m have "publish_doc pid st = (p, fm, c1)" by (simp add: publish_doc_def)
      then show ?thesis unfolding st by (simp add: publish_frameI[OF refl refl mo])
    next
      case (Inr n)
      with st Some m obtain p' where "publish_doc pid st = (p', True, c1)"
        "status p' = status p" "publishedAt p' = publishedAt p" by (simp add: publish_doc_def)
      then show ?thesis unfolding st by (simp add: publish_frameI[OF _ _ mo])
    qed
  qed
qed

lemma publish_image_loop_moves:
  "publish_image_loop pid p ids fm c = (r, c') \<Longrightarrow> \<exists>failed. moves_only pid c c' failed"
proof (induction ids arbitrary: fm c r c')
  case Nil
  then show ?case by (auto intro: moves_only_refl)
next
  case (Cons i ids)
  show ?case
  proof (cases "str_includes i ''/temp/''")
    case False
    obtain r2 c2 where l: "publish_image_loop pid p ids fm c = (r2, c2)"
      by (cases "publish_image_loop pid p ids fm c")
    from Cons.prems False l have "c' = c2" by (auto simp: Let_def split: prod.splits)
    with Cons.IH[OF l] show ?thesis by simp
  next
    case True
    obtain out c1 where m: "moveCloudinaryFiles i (project_folder pid ''images'') c = (out, c1)"
      by (cases "moveCloudinaryFiles i (project_folder pid ''images'') c")
    note mm = moves_only_move[OF m]
    obtain fm1 where fm1: "fm1 = (case out of Inl e \<Rightarrow> fm | Inr n \<Rightarrow> True)" by simp
    obtain r2 c2 where l: "publish_image_loop pid p ids fm1 c1 = (r2, c2)"
      by (cases "publish_image_loop pid p ids fm1 c1")
    from Cons.prems True m l fm1 have "c' = c2"
      by (cases out) (auto simp: Let_def split: prod.splits)
    with Cons.IH[OF l] obtain f2 where "moves_only pid c1 c' f2" by blast
    from moves_only_append[OF _ this] mm show ?thesis by blast
  qed
qed

lemma publish_images_frame: "publish_frame pid st (publish_images pid st)"
proof -
  obtain p fm c where st: "st = (p, fm, c)" by (cases st)
  show ?thesis
  proof (cases "length (imagePublicIds p) > 0")
    case False
    with st show ?thesis by (simp add: publish_images_def publish_frame_refl)
  next
    case True
    obtain r c1 where l: "publish_image_loop pid p (imagePublicIds p) fm c = (r, c1)"
      by (cases "publish_image_loop pid p (imagePublicIds p) fm c")
    from publish_image_loop_moves[OF l] obtain failed where mo: "moves_only pid c c1 failed" ..
    obtain ids urls fm1 where r: "r = (ids, urls, fm1)" by (cases r)
    from st True l r obtain p' where "publish_images pid st = (p', fm1, c1)"
      "status p' = status p" "publishedAt p' = publishedAt p"
      by (cases fm1) (simp_all add: publish_images_def)
    then show ?thesis unfolding st by (simp add: publish_frameI[OF _ _ mo])
  qed
qed

lemma publish_moves_frame:
  assumes "publish_moves pid p c = (p', fm, c')"
  shows "status p' = status p \<and> publishedAt p' = publishedAt p \<and>
         (\<exists>failed. moves_only pid c c' failed)"
proof -
  have "publish_frame pid (p, False, c) (publish_moves pid p c)"
    unfolding publish_moves_def
    by (rule publish_frame_trans[OF publish_frame_trans[OF publish_frame_trans[OF
          publish_icon_frame publish_images_frame] publish_code_frame] publish_doc_frame])
  with assms show ?thesis by (simp add: publish_frame_def)
qed

lemmas publish_defs = publishProject_def publish_moves_def publish_icon_def publish_images_def
  publish_code_def publish_doc_def

lemma publishProject_found:
  assumes "isValidObjectId w pid" and "projects w pid = Some p0"
    and "\<forall>p. save_reply w pid p = None"
    and "publishProject pid w = (res, w')"
  shows "\<exists>p fm c failed.
      publish_moves pid (p0\<lparr>status := Published, publishedAt := Some (now w)\<rparr>) (storage w) =
        (p, fm, c) \<and>
      status p = Published \<and> publishedAt p = Some (now w) \<and> moves_only pid (storage w) c failed \<and>
      w' = w\<lparr>storage := c, projects := (projects w)(pid \<mapsto> p)\<rparr> \<and>
      res = respond_after_save ''Proyecto publicado exitosamente'' p None True w'"
proof -
  obtain p fm c where m:
    "publish_moves pid (p0\<lparr>status := Published, publishedAt := Some (now w)\<rparr>) (storage w) =
       (p, fm, c)"
    by (cases "publish_moves pid (p0\<lparr>status := Published, publishedAt := Some (now w)\<rparr>)
       (storage w)")
  from publish_moves_frame[OF m] obtain failed where
    f: "status p = Published" "publishedAt p = Some (now w)" "moves_only pid (storage w) c failed"
    by auto
  have s: "save pid p (w\<lparr>storage := c\<rparr>) =
      (Inr (), w\<lparr>storage := c, projects := (projects w)(pid \<mapsto> p)\<rparr>)"
    using assms(3) by (simp add: save_def)
  from assms(1,2,4) m s have "w' = w\<lparr>storage := c, projects := (projects w)(pid \<mapsto> p)\<rparr>"
    "res = respond_after_save ''Proyecto publicado exitosamente'' p None True w'"
    by (auto simp: publishProject_def)
  with m f show ?thesis by blast
qed

lemmas world_defs2 = world_defs staged_assets_def

subsection \<open>approveDraft: moves before deletions\<close>

lemma move_sources_append [simp]:
  "move_sources (xs @ ys) = move_sources xs @ move_sources ys"
  by (induction xs rule: move_sources.induct) simp_all

lemma moved_ok_append [simp]: "moved_ok (xs @ ys) = moved_ok xs @ moved_ok ys"
  by (induction xs rule: moved_ok.induct) simp_all

lemma copies_append [simp]: "copies (xs @ ys) = copies xs @ copies ys"
  by (induction xs rule: copies.induct) simp_all

lemma copies_deletes [simp]: "copies (map (\<lambda>i. Ev_delete i (f i)) ids) = []"
  by (induction ids) simp_all

lemma deleted_ids_append [simp]: "deleted_ids (xs @ ys) = deleted_ids xs @ deleted_ids ys"
  by (induction xs rule: deleted_ids.induct) simp_all

lemma deleted_ids_deletes [simp]: "deleted_ids (map (\<lambda>i. Ev_delete i (f i)) ids) = ids"
  by (induction ids) simp_all




















subsection \<open>rejectDraft\<close>

lemma usable_feedback_Some:
  "usable_feedback feedback = Some reason \<longleftrightarrow>
     (\<exists>fb. feedback = Some fb \<and> reason = trim fb \<and> trim fb \<noteq> [])"
  by (auto simp: usable_feedback_def trim_def split: option.splits)

text \<open>
  Claim C7, as amended. For a published project with a pending draft and a feedback
  that is a string and not blank, \<open>rejectDraft\<close> (when the document can be saved) sets
  \<open>draftStatus\<close> to rejected, records the feedback with the white space at its ends
  trimmed and the time of the rejection, and changes no other field of the project.
  Its calls to Cloudinary are the requests to delete exactly the assets of the draft
  that the corresponding live fields do not reference. Storage loses no other asset;
  and of each of these assets the one held under the resource type that the request
  names is gone afterwards, unless Cloudinary fails on the request.
\<close>

theorem rejectDraft_effect:
  assumes "isValidObjectId w pid" and "projects w pid = Some p"
    and "status p = Published" and "draftStatus p = Draft_pending"
    and "usable_feedback feedback = Some reason"
    and "save_reply w pid (p\<lparr>draftStatus := Draft_rejected, draftFeedback := Some reason,
            draftRejectedAt := Some (now w)\<rparr>) = None"
    and "rejectDraft pid feedback w = (res, w')"
  shows "projects w' = (projects w)(pid \<mapsto> p\<lparr>draftStatus := Draft_rejected,
            draftFeedback := Some reason, draftRejectedAt := Some (now w)\<rparr>) \<and>
         (\<exists>fb. feedback = Some fb \<and> reason = trim fb) \<and>
         cloud_log (storage w') = cloud_log (storage w) @
            map (\<lambda>i. Ev_delete i (delete_served (storage w) i))
              (reject_filesToDelete p (the_draft p)) \<and>
         set (reject_filesToDelete p (the_draft p)) = draft_only_assets p (the_draft p) \<and>
         assets (storage w') \<subseteq> assets (storage w) \<and>
         (\<forall>a\<in>assets (storage w). a \<notin> assets (storage w') \<longrightarrow>
            fst a \<in> draft_only_assets p (the_draft p)) \<and>
         (\<forall>i\<in>draft_only_assets p (the_draft p). delete_served (storage w) i \<longrightarrow>
            (i, delete_resource_type i) \<notin> assets (storage w'))"
proof -
  define fs where "fs = reject_filesToDelete p (the_draft p)"
  define c1 where "c1 = (if fs \<noteq> [] then delete_all_settled fs (storage w) else storage w)"
  define p1 where "p1 = p\<lparr>draftStatus := Draft_rejected, draftFeedback := Some reason,
            draftRejectedAt := Some (now w)\<rparr>"
  have s: "save pid p1 (w\<lparr>storage := c1\<rparr>) =
      (Inr (), w\<lparr>storage := c1, projects := (projects w)(pid \<mapsto> p1)\<rparr>)"
    using assms(6) by (simp add: save_def p1_def)
  from assms(1-5,7) s[unfolded c1_def fs_def p1_def]
  have w': "w' = w\<lparr>storage := c1, projects := (projects w)(pid \<mapsto> p1)\<rparr>"
    by (auto simp add: rejectDraft_def Let_def c1_def fs_def p1_def)
  have c1: "cloud_log c1 = cloud_log (storage w) @
        map (\<lambda>i. Ev_delete i (delete_served (storage w) i)) fs"
    "assets c1 = assets (storage w) -
        {(i, delete_resource_type i) |i. i \<in> set fs \<and> delete_served (storage w) i}"
    using delete_all_settled_frame[of fs "storage w"] by (cases fs; simp add: c1_def)+
  have fs: "set fs = draft_only_assets p (the_draft p)"
    unfolding fs_def by (rule set_reject_filesToDelete)
  from assms(5) have fb: "\<exists>fb. feedback = Some fb \<and> reason = trim fb"
    by (auto simp: usable_feedback_Some)
  have a: "assets c1 \<subseteq> assets (storage w)" using c1(2) by auto
  have b: "\<forall>a\<in>assets (storage w). a \<notin> assets c1 \<longrightarrow> fst a \<in> draft_only_assets p (the_draft p)"
    using c1(2) fs by auto
  have c: "\<forall>i\<in>draft_only_assets p (the_draft p). delete_served (storage w) i \<longrightarrow>
      (i, delete_resource_type i) \<notin> assets c1"
    using c1(2) fs by auto
  show ?thesis
    using w' c1(1) fs fb a b c by (simp add: fs_def p1_def)
qed

theorem rejectDraft_effect_witness:
  "map_option draftStatus (projects (snd (rejectDraft ''p1''
      (Some (utf16_of '' needs better screenshots ''))
      (world_of drafted_project (cloud_ok drafted_assets)))) ''p1'') = Some Draft_rejected \<and>
   map_option draftFeedback (projects (snd (rejectDraft ''p1''
      (Some (utf16_of '' needs better screenshots ''))
      (world_of drafted_project (cloud_ok drafted_assets)))) ''p1'') =
      Some (Some (utf16_of ''needs better screenshots'')) \<and>
   map_option imagePublicIds (projects (snd (rejectDraft ''p1''
      (Some (utf16_of '' needs better screenshots ''))
      (world_of drafted_project (cloud_ok drafted_assets)))) ''p1'') =
      Some (imagePublicIds drafted_project) \<and>
   (''softstore/updates/p1/images/shot2'', Image) \<in> drafted_assets \<and>
   (''softstore/updates/p1/images/shot2'', Image) \<notin>
      assets (storage (snd (rejectDraft ''p1'' (Some (utf16_of '' needs better screenshots ''))
        (world_of drafted_project (cloud_ok drafted_assets))))) \<and>
   (''softstore/projects/p1/images/shot1'', Image) \<in>
      assets (storage (snd (rejectDraft ''p1'' (Some (utf16_of '' needs better screenshots ''))
        (world_of drafted_project (cloud_ok drafted_assets)))))"
proof -
  let ?w = "world_of drafted_project (cloud_ok drafted_assets)"
  let ?fb = "Some (utf16_of '' needs better screenshots '')"
  let ?reason = "utf16_of ''needs better screenshots''"
  let ?p' = "drafted_project\<lparr>draftStatus := Draft_rejected,
      draftFeedback := Some ?reason, draftRejectedAt := Some (now ?w)\<rparr>"
  let ?d = "the_draft drafted_project"
  have 1: "isValidObjectId ?w ''p1''" by (simp add: world_of_def)
  have 2: "projects ?w ''p1'' = Some drafted_project" by (simp add: world_of_def)
  have 3: "status drafted_project = Published" by (simp add: drafted_project_def live_project_def)
  have 4: "draftStatus drafted_project = Draft_pending" by (simp add: drafted_project_def)
  have 5: "usable_feedback ?fb = Some ?reason"
    by (simp add: usable_feedback_def trim_def is_space_def utf16_of_def)
  have 6: "save_reply ?w ''p1'' ?p' = None" by (simp add: world_of_def)
  note e = rejectDraft_effect[OF 1 2 3 4 5 6 surjective_pairing]
  have a: "''softstore/updates/p1/images/shot2'' \<in> draft_only_assets drafted_project ?d"
    and b: "''softstore/projects/p1/images/shot1'' \<notin> draft_only_assets drafted_project ?d"
    by (simp_all add: draft_only_assets_def project_defs world_defs)
  have c: "delete_served (storage ?w) ''softstore/updates/p1/images/shot2''"
    "delete_resource_type ''softstore/updates/p1/images/shot2'' = Image"
    by (simp_all add: delete_served_def delete_resource_type_def world_defs)
  have d: "assets (storage ?w) = drafted_assets" by (simp add: world_of_def cloud_ok_def)
  have d1: "(''softstore/projects/p1/images/shot1'', Image) \<in> drafted_assets"
    "(''softstore/updates/p1/images/shot2'', Image) \<in> drafted_assets"
    by (simp_all add: drafted_assets_def)
  from e a c have gone: "(''softstore/updates/p1/images/shot2'', Image) \<notin>
      assets (storage (snd (rejectDraft ''p1'' ?fb ?w)))" by fastforce
  from e b d d1(1) have kept: "(''softstore/projects/p1/images/shot1'', Image) \<in>
      assets (storage (snd (rejectDraft ''p1'' ?fb ?w)))" by fastforce
  from e have docs: "projects (snd (rejectDraft ''p1'' ?fb ?w)) = (projects ?w)(''p1'' \<mapsto> ?p')"
    by simp
  from docs gone kept d1(2) show ?thesis by simp
qed

text \<open>The claim as stated fails: a feedback that is blank (spaces, or a no-break space
  and an em space) or missing is refused with 400 and the draft stays pending; and the
  text that is recorded is the trimmed one, not the one given.\<close>

theorem rejectDraft_counterexample:
  "status drafted_project = Published \<and> draftStatus drafted_project = Draft_pending \<and>
   rejectDraft ''p1'' (Some (utf16_of ''   '')) (world_of drafted_project (cloud_ok drafted_assets)) =
     (Res_error 400 ''Debe proporcionar una razon para rechazar el borrador'',
      world_of drafted_project (cloud_ok drafted_assets)) \<and>
   rejectDraft ''p1'' (Some [0x00A0, 0x2003]) (world_of drafted_project (cloud_ok drafted_assets)) =
     (Res_error 400 ''Debe proporcionar una razon para rechazar el borrador'',
      world_of drafted_project (cloud_ok drafted_assets)) \<and>
   rejectDraft ''p1'' None (world_of drafted_project (cloud_ok drafted_assets)) =
     (Res_error 400 ''Debe proporcionar una razon para rechazar el borrador'',
      world_of drafted_project (cloud_ok drafted_assets)) \<and>
   map_option draftStatus (projects (world_of drafted_project (cloud_ok drafted_assets)) ''p1'') =
     Some Draft_pending \<and>
   map_option draftFeedback (projects (snd (rejectDraft ''p1''
      (Some (utf16_of '' needs better screenshots ''))
      (world_of drafted_project (cloud_ok drafted_assets)))) ''p1'') =
     Some (Some (utf16_of ''needs better screenshots''))"
  by (simp add: reject_defs project_defs cloud_defs world_defs draft_only_assets_def Let_def)

text \<open>\<open>deleteFromCloudinary\<close> names the resource type \<open>image\<close> for the code archive of
  the rejected draft, which Cloudinary holds as a raw file: the request is answered
  \<open>not found\<close>, counts as done, and the archive stays in storage.\<close>

lemma rejectDraft_leaves_archive:
  "''softstore/updates/p1/code/code_new'' \<in> draft_only_assets drafted_project demo_draft \<and>
   cloud_log (storage (snd (rejectDraft ''p1'' (Some (utf16_of ''needs better screenshots''))
      (world_of drafted_project (cloud_ok drafted_assets))))) =
     [Ev_delete ''softstore/updates/p1/images/shot2'' True,
      Ev_delete ''softstore/updates/p1/code/code_new'' True] \<and>
   (''softstore/updates/p1/code/code_new'', Raw) \<in>
     assets (storage (snd (rejectDraft ''p1'' (Some (utf16_of ''needs better screenshots''))
       (world_of drafted_project (cloud_ok drafted_assets)))))"
  by (simp add: reject_defs project_defs cloud_defs world_defs draft_only_assets_def Let_def)

subsection \<open>publishProject: failed moves\<close>

text \<open>
  Claim C1, as amended. If a move of an asset fails during \<open>publishProject\<close>, the
  failure is logged and the publication commits all the same: for every project that
  is found (and can be saved) the stored status becomes published with the time of
  publication, the answer is 200 unless the notification throws, and the only calls to
  Cloudinary are moves into the folders of the project - no completed move is
  reversed and nothing is deleted.
\<close>

theorem publishProject_commits_without_rollback:
  assumes "isValidObjectId w pid" and "projects w pid = Some p0"
    and "\<forall>p. save_reply w pid p = None"
    and "publishProject pid w = (res, w')"
  shows "(\<exists>p. projects w' pid = Some p \<and> status p = Published \<and> publishedAt p = Some (now w) \<and>
              (notify_reply w = None \<longrightarrow>
                 res = Res_ok 200 ''Proyecto publicado exitosamente'' p None)) \<and>
         (\<exists>ms. cloud_log (storage w') = cloud_log (storage w) @ ms \<and>
               (\<forall>e\<in>set ms. move_into pid e))"
proof -
  from publishProject_found[OF assms] obtain p fm c failed where
    f: "status p = Published" "publishedAt p = Some (now w)" "moves_only pid (storage w) c failed"
      "w' = w\<lparr>storage := c, projects := (projects w)(pid \<mapsto> p)\<rparr>"
      "res = respond_after_save ''Proyecto publicado exitosamente'' p None True w'"
    by blast
  from f(3) obtain ms where ms: "cloud_log c = cloud_log (storage w) @ ms"
    "\<forall>e\<in>set ms. move_into pid e" unfolding moves_only_def by blast
  have 1: "projects w' pid = Some p" using f(4) by simp
  have 2: "notify_reply w = None \<longrightarrow> res = Res_ok 200 ''Proyecto publicado exitosamente'' p None"
    using f(4,5) by (simp add: respond_after_save_def)
  have 3: "cloud_log (storage w') = cloud_log (storage w) @ ms" using f(4) ms(1) by simp
  show ?thesis
  proof (intro conjI)
    show "\<exists>p. projects w' pid = Some p \<and> status p = Published \<and>
        publishedAt p = Some (now w) \<and>
        (notify_reply w = None \<longrightarrow> res = Res_ok 200 ''Proyecto publicado exitosamente'' p None)"
      by (rule exI[of _ p]) (simp add: 1 2 f(1,2))
    show "\<exists>ms. cloud_log (storage w') = cloud_log (storage w) @ ms \<and>
        (\<forall>e\<in>set ms. move_into pid e)"
      by (rule exI[of _ ms]) (simp add: 3 ms(2))
  qed
qed

theorem publishProject_commits_without_rollback_witness:
  "map_option status (projects (snd publish_with_failed_move) ''p1'') = Some Published \<and>
   status_code (fst publish_with_failed_move) = 200 \<and>
   list_ex move_failed (cloud_log (storage (snd publish_with_failed_move))) \<and>
   list_all (move_into ''p1'') (cloud_log (storage (snd publish_with_failed_move)))"
proof -
  let ?w = "world_of staged_project
      (cloud_missing ''softstore/temp/code/code_demo.zip'' staged_assets)"
  have 1: "isValidObjectId ?w ''p1''" by (simp add: world_of_def)
  have 2: "projects ?w ''p1'' = Some staged_project" by (simp add: world_of_def)
  have 3: "\<forall>p. save_reply ?w ''p1'' p = None" by (simp add: world_of_def)
  have 4: "publishProject ''p1'' ?w = (fst publish_with_failed_move, snd publish_with_failed_move)"
    by (simp add: publish_with_failed_move_def)
  have 5: "notify_reply ?w = None" "cloud_log (storage ?w) = []"
    by (simp_all add: world_defs2)
  have 6: "list_ex move_failed (cloud_log (storage (snd publish_with_failed_move)))"
    by (simp add: publish_with_failed_move_def publish_defs project_defs cloud_defs world_defs2
        Let_def)
  from publishProject_commits_without_rollback[OF 1 2 3 4] 5 6
  show ?thesis by (auto simp: list_all_iff)
qed

text \<open>The claim as stated fails: the move of the code archive fails, the project is
  published with answer 200, and the icon, moved before, is no longer where it was.\<close>

theorem publishProject_no_rollback_counterexample:
  "list_ex move_failed (cloud_log (storage (snd publish_with_failed_move))) \<and>
   map_option status (projects (snd publish_with_failed_move) ''p1'') = Some Published \<and>
   status_code (fst publish_with_failed_move) = 200 \<and>
   (''softstore/temp/icons/icon_demo'', Image) \<in> staged_assets \<and>
   (''softstore/temp/icons/icon_demo'', Image) \<notin> assets (storage (snd publish_with_failed_move)) \<and>
   (''softstore/projects/p1/icons/icon_demo'', Image) \<in>
     assets (storage (snd publish_with_failed_move))"
  by (simp add: publish_with_failed_move_def publish_defs project_defs cloud_defs world_defs2
      Let_def)

subsection \<open>publishProject: no precondition on the status\<close>

text \<open>
  Claim C6, as amended. \<open>publishProject\<close> does not look at the status of the project.
  It fails with 400 on an invalid id and with 404 on an unknown one, leaving everything
  unchanged; for every project that is found, whatever its status, it stores the
  status published (when the document can be saved) and answers 200, or 400 with the
  message of the notification service if that throws.
\<close>

theorem publishProject_ignores_status:
  assumes "publishProject pid w = (res, w')"
  shows "(\<not> isValidObjectId w pid \<longrightarrow> res = Res_error 400 ''ID de proyecto invalido'' \<and> w' = w) \<and>
         (isValidObjectId w pid \<and> projects w pid = None \<longrightarrow>
            res = Res_error 404 ''Proyecto no encontrado'' \<and> w' = w) \<and>
         (\<forall>p0. isValidObjectId w pid \<and> projects w pid = Some p0 \<and>
               (\<forall>p. save_reply w pid p = None) \<longrightarrow>
            map_option status (projects w' pid) = Some Published \<and>
            (case notify_reply w of
               None \<Rightarrow> status_code res = 200
             | Some msg \<Rightarrow> res = Res_error 400 msg))"
proof (intro conjI allI impI)
  assume "\<not> isValidObjectId w pid"
  with assms show "res = Res_error 400 ''ID de proyecto invalido''" "w' = w"
    by (simp_all add: publishProject_def)
next
  assume "isValidObjectId w pid \<and> projects w pid = None"
  with assms show "res = Res_error 404 ''Proyecto no encontrado''" "w' = w"
    by (simp_all add: publishProject_def)
next
  fix p0
  assume h: "isValidObjectId w pid \<and> projects w pid = Some p0 \<and> (\<forall>p. save_reply w pid p = None)"
  then have h1: "isValidObjectId w pid" and h2: "projects w pid = Some p0"
    and h3: "\<forall>p. save_reply w pid p = None" by simp_all
  from publishProject_found[OF h1 h2 h3 assms] obtain p fm c failed where
    f: "status p = Published"
      "w' = w\<lparr>storage := c, projects := (projects w)(pid \<mapsto> p)\<rparr>"
      "res = respond_after_save ''Proyecto publicado exitosamente'' p None True w'"
    by blast
  from f show "map_option status (projects w' pid) = Some Published" by simp
  from f show "case notify_reply w of None \<Rightarrow> status_code res = 200
      | Some msg \<Rightarrow> res = Res_error 400 msg"
    by (simp add: respond_after_save_def split: option.splits)
qed

theorem publishProject_ignores_status_witness:
  "publishProject [] (world_of staged_project (cloud_ok staged_assets)) =
     (Res_error 400 ''ID de proyecto invalido'', world_of staged_project (cloud_ok staged_assets)) \<and>
   publishProject ''p2'' (world_of staged_project (cloud_ok staged_assets)) =
     (Res_error 404 ''Proyecto no encontrado'', world_of staged_project (cloud_ok staged_assets)) \<and>
   map_option status (projects (snd publish_rejected) ''p1'') = Some Published \<and>
   status_code (fst publish_rejected) = 200"
proof -
  let ?w = "world_of staged_project (cloud_ok staged_assets)"
  let ?r = "world_of (staged_project\<lparr>status := Rejected\<rparr>) (cloud_ok staged_assets)"
  have a: "\<not> isValidObjectId ?w []" by (simp add: world_of_def)
  have b: "isValidObjectId ?w ''p2'' \<and> projects ?w ''p2'' = None" by (simp add: world_of_def)
  have c: "isValidObjectId ?r ''p1'' \<and>
      projects ?r ''p1'' = Some (staged_project\<lparr>status := Rejected\<rparr>) \<and>
      (\<forall>p. save_reply ?r ''p1'' p = None)" "notify_reply ?r = None"
    by (simp_all add: world_of_def)
  have d: "publishProject ''p1'' ?r = (fst publish_rejected, snd publish_rejected)"
    by (simp add: publish_rejected_def)
  from publishProject_ignores_status[of "[]" ?w "fst (publishProject [] ?w)"
      "snd (publishProject [] ?w)"] a
  have 1: "publishProject [] ?w = (Res_error 400 ''ID de proyecto invalido'', ?w)"
    by (simp add: prod_eq_iff)
  from publishProject_ignores_status[of "''p2''" ?w "fst (publishProject ''p2'' ?w)"
      "snd (publishProject ''p2'' ?w)"] b
  have 2: "publishProject ''p2'' ?w = (Res_error 404 ''Proyecto no encontrado'', ?w)"
    by (simp add: prod_eq_iff)
  from publishProject_ignores_status[OF d] c
  have 3: "map_option status (projects (snd publish_rejected) ''p1'') = Some Published \<and>
      status_code (fst publish_rejected) = 200"
    by (auto split: option.splits)
  from 1 2 3 show ?thesis by blast
qed

text \<open>The claim as stated fails: a rejected project is published, with answer 200.\<close>

theorem publishProject_rejected_counterexample:
  "status (staged_project\<lparr>status := Rejected\<rparr>) = Rejected \<and>
   status_code (fst publish_rejected) = 200 \<and>
   map_option status (projects (snd publish_rejected) ''p1'') = Some Published"
  by (simp add: publish_rejected_def publish_defs project_defs cloud_defs world_defs2 Let_def)

section \<open>Properties of the projects controller\<close>

subsection \<open>updateProject on a published project\<close>

lemma changed_text_iff:
  "changed_text b live = Some t \<longleftrightarrow> b = Some t \<and> t \<noteq> [] \<and> t \<noteq> live"
  by (auto simp: changed_text_def truthy_id_def split: option.splits if_splits)

lemma changed_text_None_iff:
  "changed_text b live = None \<longleftrightarrow> (\<forall>t. b = Some t \<longrightarrow> t = [] \<or> t = live)"
  by (auto simp: changed_text_def truthy_id_def split: option.splits if_splits)

lemmas update_defs = updateProject_def hasChanges_def draftChanges_def changed_text_def
  icon_changed_def images_changed_def files_changed_def draft_files_of_body_def overwrite_def
  isOwner_def isPublisher_def

lemmas body_defs = same_code_body_def shortDesc_body_def same_title_body_def author_def
  demo_company_def edit_same_code_def

text \<open>
  Claim C8, as amended. For a published project and an author who is not an admin
  (the owner or a publisher of the company), \<open>updateProject\<close> compares the title, the
  two descriptions, the icon id and the list of image ids that were submitted with the
  live ones, and counts every file entry of the request (app, code, document) as a
  change without comparing it. If nothing counts as a change it answers 400, "no
  changes", and leaves everything as it is. Otherwise (when the document can be saved)
  it stores as the draft the changed fields, together with the live files overwritten
  by the submitted ones when the request has files, sets \<open>draftStatus\<close> to pending with
  the time of submission, clears the feedback of an earlier rejection, and changes no
  live field.
\<close>

theorem updateProject_published_branch:
  assumes "projects w pid = Some p" and "status p = Published"
    and "user_role u \<noteq> ''admin''"
    and "isOwner co (user_id u) \<or> isPublisher co (user_id u)"
    and "updateProject (Some u) co pid body w = (out, w')"
  shows "(hasChanges p body \<longleftrightarrow>
           (\<exists>t. b_title body = Some t \<and> t \<noteq> [] \<and> t \<noteq> title p) \<or>
           (\<exists>t. b_shortDesc body = Some t \<and> t \<noteq> [] \<and> t \<noteq> shortDesc p) \<or>
           (\<exists>t. b_longDesc body = Some t \<and> t \<noteq> [] \<and> t \<noteq> longDesc p) \<or>
           (\<exists>i. b_iconPublicId body = Some i \<and> iconPublicId p \<noteq> Some i) \<or>
           (\<exists>ids. b_imagePublicIds body = Some ids \<and> ids \<noteq> imagePublicIds p) \<or>
           (\<exists>bf. b_files body = Some bf \<and> (app bf \<noteq> None \<or> code bf \<noteq> None \<or> docPdf bf \<noteq> None))) \<and>
         (\<forall>t. d_title (draftChanges p body) = Some t \<longleftrightarrow>
              b_title body = Some t \<and> t \<noteq> [] \<and> t \<noteq> title p) \<and>
         (\<forall>t. d_shortDesc (draftChanges p body) = Some t \<longleftrightarrow>
              b_shortDesc body = Some t \<and> t \<noteq> [] \<and> t \<noteq> shortDesc p) \<and>
         (\<forall>t. d_longDesc (draftChanges p body) = Some t \<longleftrightarrow>
              b_longDesc body = Some t \<and> t \<noteq> [] \<and> t \<noteq> longDesc p) \<and>
         (\<forall>i. d_iconPublicId (draftChanges p body) = Some i \<longleftrightarrow>
              b_iconPublicId body = Some i \<and> iconPublicId p \<noteq> Some i) \<and>
         (\<forall>ids. d_imagePublicIds (draftChanges p body) = Some ids \<longleftrightarrow>
              b_imagePublicIds body = Some ids \<and> ids \<noteq> imagePublicIds p) \<and>
         d_files (draftChanges p body) = map_option (draft_files_of_body p) (b_files body) \<and>
         (\<not> hasChanges p body \<longrightarrow>
            out = Answered (Res_error 400 ''No se detectaron cambios para guardar'') \<and> w' = w) \<and>
         (hasChanges p body \<and>
          save_reply w pid (p\<lparr>draft := Some (draftChanges p body), draftStatus := Draft_pending,
             draftSubmittedAt := Some (now w), draftFeedback := None, draftRejectedAt := None\<rparr>) = None
          \<longrightarrow>
            projects w' = (projects w)(pid \<mapsto>
               p\<lparr>draft := Some (draftChanges p body), draftStatus := Draft_pending,
                 draftSubmittedAt := Some (now w), draftFeedback := None,
                 draftRejectedAt := None\<rparr>) \<and>
            storage w' = storage w \<and>
            (\<exists>msg q. out = Answered (Res_ok 200 msg q None)))"
proof (intro conjI impI)
  show "hasChanges p body \<longleftrightarrow>
           (\<exists>t. b_title body = Some t \<and> t \<noteq> [] \<and> t \<noteq> title p) \<or>
           (\<exists>t. b_shortDesc body = Some t \<and> t \<noteq> [] \<and> t \<noteq> shortDesc p) \<or>
           (\<exists>t. b_longDesc body = Some t \<and> t \<noteq> [] \<and> t \<noteq> longDesc p) \<or>
           (\<exists>i. b_iconPublicId body = Some i \<and> iconPublicId p \<noteq> Some i) \<or>
           (\<exists>ids. b_imagePublicIds body = Some ids \<and> ids \<noteq> imagePublicIds p) \<or>
           (\<exists>bf. b_files body = Some bf \<and> (app bf \<noteq> None \<or> code bf \<noteq> None \<or> docPdf bf \<noteq> None))"
    unfolding hasChanges_def
    by (auto simp: changed_text_iff icon_changed_def images_changed_def files_changed_def
        split: option.splits)
next
  show "\<forall>t. d_title (draftChanges p body) = Some t \<longleftrightarrow>
      b_title body = Some t \<and> t \<noteq> [] \<and> t \<noteq> title p"
    "\<forall>t. d_shortDesc (draftChanges p body) = Some t \<longleftrightarrow>
      b_shortDesc body = Some t \<and> t \<noteq> [] \<and> t \<noteq> shortDesc p"
    "\<forall>t. d_longDesc (draftChanges p body) = Some t \<longleftrightarrow>
      b_longDesc body = Some t \<and> t \<noteq> [] \<and> t \<noteq> longDesc p"
    by (simp_all add: draftChanges_def changed_text_iff)
  show "\<forall>i. d_iconPublicId (draftChanges p body) = Some i \<longleftrightarrow>
      b_iconPublicId body = Some i \<and> iconPublicId p \<noteq> Some i"
    by (auto simp: draftChanges_def icon_changed_def split: option.splits)
  show "\<forall>ids. d_imagePublicIds (draftChanges p body) = Some ids \<longleftrightarrow>
      b_imagePublicIds body = Some ids \<and> ids \<noteq> imagePublicIds p"
    by (auto simp: draftChanges_def images_changed_def split: option.splits)
  show "d_files (draftChanges p body) = map_option (draft_files_of_body p) (b_files body)"
    by (simp add: draftChanges_def)
next
  assume "\<not> hasChanges p body"
  with assms show "out = Answered (Res_error 400 ''No se detectaron cambios para guardar'')"
    "w' = w"
    by (auto simp: updateProject_def)
next
  assume h: "hasChanges p body \<and>
          save_reply w pid (p\<lparr>draft := Some (draftChanges p body), draftStatus := Draft_pending,
             draftSubmittedAt := Some (now w), draftFeedback := None, draftRejectedAt := None\<rparr>) = None"
  with assms have "w' = w\<lparr>projects := (projects w)(pid \<mapsto>
               p\<lparr>draft := Some (draftChanges p body), draftStatus := Draft_pending,
                 draftSubmittedAt := Some (now w), draftFeedback := None,
                 draftRejectedAt := None\<rparr>)\<rparr>"
    "\<exists>msg q. out = Answered (Res_ok 200 msg q None)"
    by (auto simp: updateProject_def save_def Let_def)
  then show "projects w' = (projects w)(pid \<mapsto>
               p\<lparr>draft := Some (draftChanges p body), draftStatus := Draft_pending,
                 draftSubmittedAt := Some (now w), draftFeedback := None,
                 draftRejectedAt := None\<rparr>)" "storage w' = storage w"
    "\<exists>msg q. out = Answered (Res_ok 200 msg q None)"
    by simp_all
qed

theorem updateProject_published_branch_witness:
  "updateProject (Some author) (Some demo_company) ''p1'' same_title_body
      (world_of live_project (cloud_ok drafted_assets)) =
     (Answered (Res_error 400 ''No se detectaron cambios para guardar''),
      world_of live_project (cloud_ok drafted_assets)) \<and>
   projects (snd (updateProject (Some author) (Some demo_company) ''p1'' shortDesc_body
      (world_of live_project (cloud_ok drafted_assets)))) ''p1'' =
     Some (live_project\<lparr>draft := Some (draftChanges live_project shortDesc_body),
        draftStatus := Draft_pending, draftSubmittedAt := Some 100, draftFeedback := None,
        draftRejectedAt := None\<rparr>) \<and>
   d_shortDesc (draftChanges live_project shortDesc_body) = Some ''A better short description'' \<and>
   d_title (draftChanges live_project shortDesc_body) = None"
proof -
  let ?w = "world_of live_project (cloud_ok drafted_assets)"
  have 1: "projects ?w ''p1'' = Some live_project" by (simp add: world_of_def)
  have 2: "status live_project = Published" by (simp add: live_project_def)
  have 3: "user_role author \<noteq> ''admin''" by (simp add: author_def)
  have 4: "isOwner (Some demo_company) (user_id author) \<or>
      isPublisher (Some demo_company) (user_id author)"
    by (simp add: isOwner_def demo_company_def author_def)
  have a: "\<not> hasChanges live_project same_title_body"
    by (simp add: update_defs body_defs project_defs live_project_def)
  have b: "hasChanges live_project shortDesc_body"
    by (simp add: update_defs body_defs project_defs live_project_def)
  have c: "save_reply ?w ''p1'' (live_project\<lparr>draft := Some (draftChanges live_project shortDesc_body),
       draftStatus := Draft_pending, draftSubmittedAt := Some (now ?w), draftFeedback := None,
       draftRejectedAt := None\<rparr>) = None" "now ?w = 100"
    by (simp_all add: world_of_def)
  from updateProject_published_branch[OF 1 2 3 4 surjective_pairing, of same_title_body] a
  have A: "updateProject (Some author) (Some demo_company) ''p1'' same_title_body ?w =
     (Answered (Res_error 400 ''No se detectaron cambios para guardar''), ?w)"
    by (simp add: prod_eq_iff)
  from updateProject_published_branch[OF 1 2 3 4 surjective_pairing, of shortDesc_body] b c
  have B: "projects (snd (updateProject (Some author) (Some demo_company) ''p1'' shortDesc_body ?w))
      ''p1'' = Some (live_project\<lparr>draft := Some (draftChanges live_project shortDesc_body),
        draftStatus := Draft_pending, draftSubmittedAt := Some 100, draftFeedback := None,
        draftRejectedAt := None\<rparr>)"
    by simp
  have C: "d_shortDesc (draftChanges live_project shortDesc_body) = Some ''A better short description''"
    "d_title (draftChanges live_project shortDesc_body) = None"
    by (simp_all add: update_defs body_defs project_defs live_project_def)
  from A B C show ?thesis by simp
qed

text \<open>The claim as stated fails: the request submits the code archive the project
  already has and nothing else; no submitted field differs from the live one, and yet
  a draft is stored, holding the unchanged files, and set pending.\<close>

theorem updateProject_same_file_counterexample:
  "map_option code (b_files same_code_body) = map_option code (files live_project) \<and>
   fst edit_same_code \<noteq> Answered (Res_error 400 ''No se detectaron cambios para guardar'') \<and>
   map_option draftStatus (projects (snd edit_same_code) ''p1'') = Some Draft_pending \<and>
   map_option (map_option d_files \<circ> draft) (projects (snd edit_same_code) ''p1'') =
     Some (Some (files live_project))"
  by (simp add: update_defs body_defs project_defs world_defs Let_def)

subsection \<open>createProjectWithFiles: rollback\<close>

lemma uploads_of_append: "uploads_of (xs @ ys) = uploads_of xs @ uploads_of ys"
  by (induction xs rule: uploads_of.induct) simp_all

lemma uploadToCloudinary_frame:
  assumes "uploadToCloudinary n m f c = (out, c')"
  shows "uploads_of (cloud_log c') =
           uploads_of (cloud_log c) @ (case out of Inl e \<Rightarrow> [] | Inr r \<Rightarrow> [fileId r])"
  using assms
  by (auto simp: uploadToCloudinary_def Let_def log_event_def uploads_of_append
      split: sum.splits option.splits)

lemma creation_frameI:
  assumes "uploadedFileIds cr = uploadedFileIds cr0 @ ids"
    and "uploads_of (cloud_log (storage (cr_world cr))) =
          uploads_of (cloud_log (storage (cr_world cr0))) @ ids"
    and "verdicts cr = verdicts cr0 @ vs"
    and "\<forall>v\<in>set vs. \<not> isSafe v \<longrightarrow>
           (\<exists>label\<in>{''Archivo'', ''Codigo'', ''Documento''}.
              thrown = Some (malware_message label v))"
  shows "creation_frame cr0 thrown cr"
  unfolding creation_frame_def using assms by blast

lemma creation_frame_same:
  assumes "uploadedFileIds cr = uploadedFileIds cr0"
    and "cloud_log (storage (cr_world cr)) = cloud_log (storage (cr_world cr0))"
    and "verdicts cr = verdicts cr0"
  shows "creation_frame cr0 thrown cr"
  by (rule creation_frameI[of _ _ "[]" "[]"]) (simp_all add: assms)

lemma creation_frame_trans:
  assumes "creation_frame cr0 None cr1" "creation_frame cr1 thrown cr2"
  shows "creation_frame cr0 thrown cr2"
proof -
  from assms(1) obtain ids1 vs1 where 1:
    "uploadedFileIds cr1 = uploadedFileIds cr0 @ ids1"
    "uploads_of (cloud_log (storage (cr_world cr1))) =
       uploads_of (cloud_log (storage (cr_world cr0))) @ ids1"
    "verdicts cr1 = verdicts cr0 @ vs1"
    "\<forall>v\<in>set vs1. isSafe v"
    unfolding creation_frame_def by auto
  from assms(2) obtain ids2 vs2 where 2:
    "uploadedFileIds cr2 = uploadedFileIds cr1 @ ids2"
    "uploads_of (cloud_log (storage (cr_world cr2))) =
       uploads_of (cloud_log (storage (cr_world cr1))) @ ids2"
    "verdicts cr2 = verdicts cr1 @ vs2"
    "\<forall>v\<in>set vs2. \<not> isSafe v \<longrightarrow>
           (\<exists>label\<in>{''Archivo'', ''Codigo'', ''Documento''}.
              thrown = Some (malware_message label v))"
    unfolding creation_frame_def by auto
  show ?thesis
    by (rule creation_frameI[of _ _ "ids1 @ ids2" "vs1 @ vs2"]) (use 1 2 in auto)
qed

lemma and_then_frame:
  assumes "creation_frame cr0 (fst r) (snd r)"
    and "\<And>cr1. creation_frame cr1 (fst (f cr1)) (snd (f cr1))"
  shows "creation_frame cr0 (fst (and_then r f)) (snd (and_then r f))"
proof (cases r)
  case (Pair t cr1)
  show ?thesis
  proof (cases t)
    case None
    with Pair assms(1) have "creation_frame cr0 None cr1" by simp
    from creation_frame_trans[OF this assms(2)[of cr1]] Pair None
    show ?thesis by (simp add: and_then_def)
  next
    case (Some e)
    with Pair assms(1) show ?thesis by (simp add: and_then_def)
  qed
qed

lemma upload_icon_frame:
  "creation_frame cr (fst (upload_icon naming pid fs cr)) (snd (upload_icon naming pid fs cr))"
proof (cases "f_icon fs")
  case Nil
  then show ?thesis by (simp add: upload_icon_def creation_frame_same)
next
  case (Cons iconFile others)
  obtain out c1 where u: "uploadToCloudinary
      (naming ''icon'' (title (cr_project cr)) (now (cr_world cr)) (originalname iconFile) 0)
      (mimetype iconFile) (upload_folder pid ''icons'') (storage (cr_world cr)) = (out, c1)"
    by (cases "uploadToCloudinary
      (naming ''icon'' (title (cr_project cr)) (now (cr_world cr)) (originalname iconFile) 0)
      (mimetype iconFile) (upload_folder pid ''icons'') (storage (cr_world cr))")
  note f = uploadToCloudinary_frame[OF u]
  show ?thesis
  proof (cases out)
    case (Inl e)
    with Cons u f show ?thesis
      by (intro creation_frameI[of _ _ "[]" "[]"]) (simp_all add: upload_icon_def with_storage_def)
  next
    case (Inr r)
    with Cons u f show ?thesis
      by (intro creation_frameI[of _ _ "[fileId r]" "[]"])
        (simp_all add: upload_icon_def with_storage_def)
  qed
qed

lemma upload_images_loop_frame:
  "upload_images_loop naming pid i imgs cr = ((thrown, rs), cr') \<Longrightarrow> creation_frame cr thrown cr'"
proof (induction imgs arbitrary: i cr thrown rs cr')
  case Nil
  then show ?case by (auto intro: creation_frame_same)
next
  case (Cons imgFile rest)
  obtain out c1 where u: "uploadToCloudinary
      (naming ''image'' (title (cr_project cr)) (now (cr_world cr)) (originalname imgFile) (i + 1))
      (mimetype imgFile) (upload_folder pid ''images'') (storage (cr_world cr)) = (out, c1)"
    by (cases "uploadToCloudinary
      (naming ''image'' (title (cr_project cr)) (now (cr_world cr)) (originalname imgFile) (i + 1))
      (mimetype imgFile) (upload_folder pid ''images'') (storage (cr_world cr))")
  note f = uploadToCloudinary_frame[OF u]
  show ?case
  proof (cases out)
    case (Inl e)
    with Cons.prems u have "cr' = with_storage c1 cr" by simp
    with Inl f show ?thesis
      by (intro creation_frameI[of _ _ "[]" "[]"]) (simp_all add: with_storage_def)
  next
    case (Inr r)
    let ?cr1 = "(with_storage c1 cr)\<lparr>uploadedFileIds := uploadedFileIds cr @ [fileId r]\<rparr>"
    obtain t2 rs2 cr2 where l: "upload_images_loop naming pid (i + 1) rest ?cr1 = ((t2, rs2), cr2)"
      by (cases "upload_images_loop naming pid (i + 1) rest ?cr1") auto
    from Cons.prems u Inr l have e: "thrown = t2" "cr' = cr2" by simp_all
    have 1: "creation_frame cr None ?cr1"
      using Inr f by (intro creation_frameI[of _ _ "[fileId r]" "[]"]) (simp_all add: with_storage_def)
    from creation_frame_trans[OF 1 Cons.IH[OF l]] e show ?thesis by simp
  qed
qed

lemma upload_images_frame:
  "creation_frame cr (fst (upload_images naming pid fs cr)) (snd (upload_images naming pid fs cr))"
proof (cases "length (f_images fs) > 0")
  case False
  then show ?thesis by (simp add: upload_images_def creation_frame_same)
next
  case True
  obtain t rs cr1 where l:
    "upload_images_loop naming pid 0 (take 5 (f_images fs)) cr = ((t, rs), cr1)"
    by (cases "upload_images_loop naming pid 0 (take 5 (f_images fs)) cr") auto
  note f = upload_images_loop_frame[OF l]
  show ?thesis
  proof (cases t)
    case None
    let ?cr2 = "cr1\<lparr>cr_project := (cr_project cr1)
                            \<lparr>imagePublicIds := map fileId rs, imageUrls := map secureUrl rs\<rparr>,
                         has_updates := True\<rparr>"
    have "creation_frame cr1 None ?cr2" by (rule creation_frame_same) simp_all
    from creation_frame_trans[OF _ this] f None have "creation_frame cr None ?cr2" by simp
    with True l None show ?thesis by (simp add: upload_images_def)
  next
    case (Some e)
    with True l f show ?thesis by (simp add: upload_images_def)
  qed
qed

lemma upload_scanned_frame:
  assumes "label \<in> {''Archivo'', ''Codigo'', ''Documento''}"
  shows "creation_frame cr (fst (upload_scanned sha naming pid label prefix kind sub cr))
     (snd (upload_scanned sha naming pid label prefix kind sub cr))"
proof (cases sub)
  case Nil
  then show ?thesis by (simp add: upload_scanned_def creation_frame_same)
next
  case (Cons fl others)
  obtain v av1 where s: "scanWithVirusTotal sha (av (cr_world cr)) (file_buffer fl)
      (originalname fl) = (v, av1)"
    by (cases "scanWithVirusTotal sha (av (cr_world cr)) (file_buffer fl) (originalname fl)")
  let ?cr1 = "cr\<lparr>cr_world := (cr_world cr)\<lparr>av := av1\<rparr>, verdicts := verdicts cr @ [v]\<rparr>"
  show ?thesis
  proof (cases "isSafe v")
    case False
    with Cons s have "upload_scanned sha naming pid label prefix kind sub cr =
        (Some (malware_message label v), ?cr1)"
      by (simp add: upload_scanned_def Let_def)
    moreover have "creation_frame cr (Some (malware_message label v)) ?cr1"
      using assms by (intro creation_frameI[of _ _ "[]" "[v]"]) auto
    ultimately show ?thesis by simp
  next
    case True
    obtain out c1 where u: "uploadToCloudinary
        (naming prefix (title (cr_project ?cr1)) (now (cr_world ?cr1)) (originalname fl) 0)
        (mimetype fl) (upload_folder pid kind) (storage (cr_world ?cr1)) = (out, c1)"
      by (cases "uploadToCloudinary
        (naming prefix (title (cr_project ?cr1)) (now (cr_world ?cr1)) (originalname fl) 0)
        (mimetype fl) (upload_folder pid kind) (storage (cr_world ?cr1))")
    note f = uploadToCloudinary_frame[OF u]
    show ?thesis
    proof (cases out)
      case (Inl e)
      with Cons s True u have "upload_scanned sha naming pid label prefix kind sub cr =
          (Some e, with_storage c1 ?cr1)"
        by (simp add: upload_scanned_def Let_def)
      moreover have "creation_frame cr (Some e) (with_storage c1 ?cr1)"
        using True f Inl
        by (intro creation_frameI[of _ _ "[]" "[v]"]) (simp_all add: with_storage_def)
      ultimately show ?thesis by simp
    next
      case (Inr r)
      let ?cr2 = "(with_storage c1 ?cr1)
           \<lparr>uploadedFileIds := uploadedFileIds ?cr1 @ [fileId r],
            cr_project := set_file kind
              \<lparr>file_type = Some ''cloudinary'', url = Some (secureUrl r),
               publicId = Some (fileId r),
               fileName = Some (originalname fl), virusScan = Some v\<rparr> (cr_project ?cr1),
            has_updates := True\<rparr>"
      from Cons s True u Inr have "upload_scanned sha naming pid label prefix kind sub cr =
          (None, ?cr2)"
        by (simp add: upload_scanned_def Let_def)
      moreover have "creation_frame cr None ?cr2"
        using True f Inr
        by (intro creation_frameI[of _ _ "[fileId r]" "[v]"]) (simp_all add: with_storage_def)
      ultimately show ?thesis by simp
    qed
  qed
qed

lemma save_updates_frame:
  "creation_frame cr (fst (save_updates pid cr)) (snd (save_updates pid cr))"
proof (cases "has_updates cr")
  case False
  then show ?thesis by (simp add: save_updates_def creation_frame_same)
next
  case True
  obtain r w1 where s: "save pid (cr_project cr) (cr_world cr) = (r, w1)"
    by (cases "save pid (cr_project cr) (cr_world cr)")
  from save_frame[OF s] have st: "storage w1 = storage (cr_world cr)" by simp
  from True s st show ?thesis
    by (cases r) (auto simp: save_updates_def intro!: creation_frame_same)
qed

lemma notify_submitted_frame:
  "creation_frame cr (fst (notify_submitted cr)) (snd (notify_submitted cr))"
  by (simp add: notify_submitted_def creation_frame_same)

lemma creation_steps_frame:
  assumes "creation_steps sha naming pid fs cr = (thrown, cr')"
  shows "creation_frame cr thrown cr'"
proof -
  have "creation_frame cr (fst (creation_steps sha naming pid fs cr))
      (snd (creation_steps sha naming pid fs cr))"
    unfolding creation_steps_def
    by (intro and_then_frame upload_icon_frame upload_images_frame upload_scanned_frame
        save_updates_frame notify_submitted_frame) simp_all
  with assms show ?thesis by simp
qed

lemmas create_defs = createProjectWithFiles_def creation_steps_def and_then_def upload_icon_def
  upload_images_def upload_scanned_def save_updates_def notify_submitted_def rollback_def
  start_creation_def with_storage_def upload_folder_def uploadToCloudinary_def startsWith_def
  malware_message_def set_file_def basic_valid_def new_project_def isOwner_def isPublisher_def

text \<open>
  What the handler does when a scan reports threats, in a creation request that got
  as far as creating the document: the caller receives the answer 400 whose message
  carries the list of threats of that verdict; the document created for the request
  is deleted; the ids in \<open>uploadedFileIds\<close> are exactly the files that were stored in
  Cloudinary during the request, and \<open>deleteFromCloudinary\<close> is called for each of
  them, in order.
\<close>

lemma rollback_on_threat:
  assumes "basic_valid body" and "companies w (c_companyId body) = Some co"
    and "isOwner (Some co) uid \<or> isPublisher (Some co) uid"
    and "save (fresh_id w) (new_project body co) w = (Inr (), w1)"
    and "creation_steps sha naming (fresh_id w) fs (start_creation w1 (new_project body co)) =
           (thrown, cr)"
    and "v \<in> set (verdicts cr)" and "\<not> isSafe v"
    and "createProjectWithFiles sha naming zm (Some uid) body fs w = (res, w')"
  shows "(\<exists>label\<in>{''Archivo'', ''Codigo'', ''Documento''}.
            res = Res_error 400 (label @ '' contiene malware: '' @ join_with '', '' (threats v))) \<and>
         projects w' (fresh_id w) = None \<and>
         uploads_of (cloud_log (storage (cr_world cr))) =
           uploads_of (cloud_log (storage w)) @ uploadedFileIds cr \<and>
         cloud_log (storage w') = cloud_log (storage (cr_world cr)) @
           map (\<lambda>i. Ev_delete i (delete_served (storage (cr_world cr)) i)) (uploadedFileIds cr)"
proof -
  from creation_steps_frame[OF assms(5)] obtain ids vs where
    f: "uploadedFileIds cr = ids"
      "uploads_of (cloud_log (storage (cr_world cr))) = uploads_of (cloud_log (storage w1)) @ ids"
      "verdicts cr = vs"
      "\<forall>v\<in>set vs. \<not> isSafe v \<longrightarrow>
           (\<exists>label\<in>{''Archivo'', ''Codigo'', ''Documento''}.
              thrown = Some (malware_message label v))"
    unfolding creation_frame_def by (auto simp: start_creation_def)
  from f(3,4) assms(6,7) obtain label where
    l: "label \<in> {''Archivo'', ''Codigo'', ''Documento''}" "thrown = Some (malware_message label v)"
    by blast
  from save_frame[OF assms(4)] have st: "storage w1 = storage w" by simp
  from assms(1-5,8) l(2) have r: "res = Res_error 400 (malware_message label v)"
    "w' = rollback (fresh_id w) cr"
    by (auto simp: createProjectWithFiles_def)
  define c where "c = storage (cr_world cr)"
  define us where "us = uploadedFileIds cr"
  have sw: "storage w' = (if us \<noteq> [] then delete_all_settled us c else c)"
    "projects w' (fresh_id w) = None"
    using r(2) by (simp_all add: rollback_def Let_def c_def us_def)
  have d: "cloud_log (storage w') = cloud_log c @ map (\<lambda>i. Ev_delete i (delete_served c i)) us"
    using delete_all_settled_frame[of us c] sw(1) by (cases us; simp)
  have 1: "\<exists>label\<in>{''Archivo'', ''Codigo'', ''Documento''}.
            res = Res_error 400 (label @ '' contiene malware: '' @ join_with '', '' (threats v))"
    using l(1) r(1) unfolding malware_message_def by blast
  have 3: "uploads_of (cloud_log (storage (cr_world cr))) =
           uploads_of (cloud_log (storage w)) @ uploadedFileIds cr"
    using f(1,2) st by simp
  from 1 sw(2) 3 d show ?thesis unfolding c_def us_def by simp
qed

text \<open>
  Claim C3. The rollback does not delete every file that the request uploaded. A
  request with an icon, a code archive that VirusTotal reports clean and a document in
  which it reports a detection, against a Cloudinary that holds nothing and serves
  every request: the handler answers 400 with the list of threats and deletes the
  document, and it calls \<open>deleteFromCloudinary\<close> for the icon and for the archive. The
  archive was stored as a raw file (\<open>uploadToCloudinary\<close> chooses the resource type
  by the MIME type) while \<open>deleteFromCloudinary\<close> names the resource type \<open>image\<close>
  for it (its public id has none of the markers the function looks for); Cloudinary
  answers \<open>not found\<close>, which counts as done, and the archive stays in storage.
\<close>

theorem createProjectWithFiles_rollback_leaves_archive:
  "assets (storage infected_doc_world) = {} \<and>
   fst create_infected_doc =
     Res_error 400 ''Documento contiene malware: EngineA: Trojan.Generic'' \<and>
   projects (snd create_infected_doc) ''p2'' = None \<and>
   cloud_log (storage (snd create_infected_doc)) =
     [Ev_upload ''icon_photo_editor_100.png'' ''softstore/p2/icons''
        (Some ''softstore/p2/icons/icon_photo_editor_100''),
      Ev_upload ''code_photo_editor_100.zip'' ''softstore/p2/code''
        (Some ''softstore/p2/code/code_photo_editor_100''),
      Ev_delete ''softstore/p2/icons/icon_photo_editor_100'' True,
      Ev_delete ''softstore/p2/code/code_photo_editor_100'' True] \<and>
   assets (storage (snd create_infected_doc)) =
     {(''softstore/p2/code/code_photo_editor_100'', Raw)}"
  by (simp add: create_infected_doc_def infected_doc_world_def demo_files_doc_def demo_body_def
      demo_naming_def demo_zodMessage_def create_defs av_defs demo_defs cloud_defs project_defs
      world_defs getScanReport_loop.simps insert_Diff_if)

end
